theory Spec2Isabelle
  imports Complex_Main "HOL-Library.AList"
begin

section \<open>Strings as Python has them\<close>

text \<open>
  A Python \<open>str\<close> is modelled as a \<open>string\<close>, one \<open>char\<close> per code point
  (code points below 256). \<open>len\<close> is \<open>length\<close>.
\<close>

definition digit_char :: "nat \<Rightarrow> char" where
  "digit_char n = ''0123456789'' ! n"

text \<open>\<open>str(n)\<close> for a non-negative integer: its decimal digits.\<close>

function str_nat :: "nat \<Rightarrow> string" where
  "str_nat n = (if n < 10 then [digit_char n] else str_nat (n div 10) @ [digit_char (n mod 10)])"
  by pat_completeness auto
termination
  by (relation "measure (\<lambda>n. n)") auto

declare str_nat.simps [simp del]

text \<open>\<open>str(i)\<close> for an \<open>int\<close>, as in \<open>chat_id_str = str(chat_id)\<close>.\<close>

definition str_int :: "int \<Rightarrow> string" where
  "str_int i = (if i < 0 then CHR ''-'' # str_nat (nat (- i)) else str_nat (nat i))"

text \<open>
  \<open>str.isspace\<close> on one character: the code points below 256 that Python counts as
  whitespace (tab, line feed, vertical tab, form feed, carriage return, the four
  separators 28 to 31, space, next line, no-break space).
\<close>

definition is_space :: "char \<Rightarrow> bool" where
  "is_space c = (of_char c \<in> {9, 10, 11, 12, 13, 28, 29, 30, 31, 32, 133, 160 :: nat})"

text \<open>\<open>s.strip()\<close>: whitespace removed at both ends.\<close>

definition strip :: "string \<Rightarrow> string" where
  "strip s = dropWhile is_space (rev (dropWhile is_space (rev s)))"

text \<open>\<open>s.split(c)\<close> for a one-character separator: never an empty list.\<close>

fun split_on :: "char \<Rightarrow> string \<Rightarrow> string list" where
  "split_on c [] = [[]]"
| "split_on c (x # xs) =
     (if x = c then [] # split_on c xs
      else (case split_on c xs of
              [] \<Rightarrow> [[x]]
            | w # ws \<Rightarrow> (x # w) # ws))"

text \<open>\<open>s.startswith(p)\<close>.\<close>

definition startswith :: "string \<Rightarrow> string \<Rightarrow> bool" where
  "startswith s p = (take (length p) s = p)"

section \<open>Candidate generation: \<open>generate_code_options\<close>\<close>

text \<open>
  First the part of \<open>generate_code_options\<close> that works on text: what it makes of a
  reply of the backend that is a non-empty string, and what it returns when there is no
  reply. The function itself follows \<open>call_llm\<close> below.
\<close>

text \<open>
  The loop
  \<^verbatim>\<open>for line in lines:
      if line not in unique_lines: unique_lines.append(line)
      if len(unique_lines) == 4: break\<close>
\<close>

fun take_unique :: "string list \<Rightarrow> string list \<Rightarrow> string list" where
  "take_unique unique_lines [] = unique_lines"
| "take_unique unique_lines (line # lines) =
     (let u = (if line \<in> set unique_lines then unique_lines else unique_lines @ [line])
      in if length u = 4 then u else take_unique u lines)"

text \<open>
  The loop
  \<^verbatim>\<open>while len(unique_lines) < 4:
      unique_lines.append(f"    # Option {len(unique_lines) + 1}")\<close>
\<close>

function pad_options :: "string list \<Rightarrow> string list" where
  "pad_options unique_lines =
     (if length unique_lines < 4
      then pad_options (unique_lines @ [''    # Option '' @ str_nat (length unique_lines + 1)])
      else unique_lines)"
  by pat_completeness auto
termination
  by (relation "measure (\<lambda>u. 4 - length u)") auto

declare pad_options.simps [simp del]

definition fallback_first :: "string list" where
  "fallback_first =
     [''# Simple Python program'', ''import sys'', ''def main():'',
      ''if __name__ == '' @ [CHR 0x27] @ ''__main__'' @ [CHR 0x27] @ '':'']"

definition fallback_next :: "string list" where
  "fallback_next =
     [''    pass'', ''    # TODO: implement'', ''    return None'',
      ''    print('' @ [CHR 0x27] @ ''Done'' @ [CHR 0x27] @ '')'']"

text \<open>
  Lines 172 to 174: the response split at line feeds, each line stripped, empty lines
  dropped; then markdown fences and lines longer than 95 characters dropped.
\<close>

definition candidate_lines :: "string \<Rightarrow> string list" where
  "candidate_lines response =
     (let lines = filter (\<lambda>line. line \<noteq> []) (map strip (split_on (CHR 0x0A) response))
      in filter (\<lambda>line. \<not> startswith line [CHR 0x60, CHR 0x60, CHR 0x60]
                          \<and> length line \<le> 95) lines)"

text \<open>Lines 172 to 188, for a reply that is a string.\<close>

definition options_from_text :: "string \<Rightarrow> string list" where
  "options_from_text response =
     (let lines = candidate_lines response;
          unique_lines = take_unique [] lines;
          unique_lines = pad_options unique_lines
      in take 4 unique_lines)"

text \<open>A line counts as a candidate of the backend when it is not empty, does not
  start with a space and has at most 95 characters.\<close>

definition unpadded :: "string \<Rightarrow> bool" where
  "unpadded l = (l \<noteq> [] \<and> hd l \<noteq> CHR '' '' \<and> length l \<le> 95)"

section \<open>The store: \<open>BotStorage\<close>\<close>

text \<open>
  A key of a Python dict: the votes of a poll are created with \<open>int\<close> keys
  (\<open>{i: 0 for i in range(4)}\<close>); a dict read back by \<open>json.load\<close> has \<open>str\<close> keys.
\<close>

datatype pykey = KInt int | KStr string

text \<open>A dict keeps its keys in insertion order: an association list.\<close>

type_synonym votes = "(pykey \<times> int) list"

text \<open>The keys \<open>poll_id\<close>, \<open>options\<close>, \<open>votes\<close> that \<open>poll_data\<close> and
  \<open>poll_result\<close> share.\<close>

record poll_core =
  poll_id :: string
  options :: "string list"
  votes :: votes

text \<open>\<open>poll_data\<close> of \<open>send_poll\<close>: the active poll of a chat.\<close>

record poll_data = poll_core +
  message_id :: int
  close_time :: real
  created_at :: string

text \<open>\<open>poll_result\<close> of \<open>close_poll\<close>: an archived poll.\<close>

record poll_result = poll_core +
  winner :: string
  winner_index :: int
  closed_at :: string

record chat_data =
  polls :: "poll_result list"
  active_poll :: "poll_data option"

text \<open>\<open>storage.data["chats"]\<close>: chat id string to chat, in insertion order.\<close>

type_synonym data = "(string \<times> chat_data) list"

text \<open>What a handler does besides changing \<open>storage.data\<close>, in the order it does it.\<close>

datatype level = INFO | WARNING | ERROR

datatype reply =
    AdminOnly | AlreadyActive | SendingPoll | BadChatId | Completing | Completed
  | Cleared | Welcome | ErrorText

datatype effect =
    Save data                       \<comment> \<open>\<open>storage.save()\<close>: the data written to the file\<close>
  | Log level                       \<comment> \<open>\<open>logger.info\<close>, \<open>logger.warning\<close>, \<open>logger.error\<close>\<close>
  | SendPoll int nat "string list"  \<comment> \<open>\<open>bot.send_poll\<close>: chat, line number, options\<close>
  | StopPoll int int                \<comment> \<open>\<open>bot.stop_poll\<close>: chat, message id\<close>
  | SendMessage int string int      \<comment> \<open>\<open>bot.send_message\<close>: chat, winning line, its votes\<close>
  | ReplyText reply                 \<comment> \<open>\<open>update.message.reply_text\<close>\<close>
  | ReplyDocument                   \<comment> \<open>\<open>update.message.reply_document\<close>\<close>
  | RunOnce int int string          \<comment> \<open>\<open>job_queue.run_once\<close>: delay, chat, poll id\<close>
  | Sleep nat                       \<comment> \<open>\<open>asyncio.sleep\<close>\<close>

definition empty_chat :: chat_data where
  "empty_chat = \<lparr>polls = [], active_poll = None\<rparr>"

definition get_chat :: "data \<Rightarrow> string \<Rightarrow> data \<times> effect list \<times> chat_data" where
  "get_chat d chat_id =
     (case map_of d chat_id of
        None \<Rightarrow> (let d' = AList.update chat_id empty_chat d in (d', [Save d'], empty_chat))
      | Some chat \<Rightarrow> (d, [], chat))"

definition clear_chat :: "data \<Rightarrow> string \<Rightarrow> data \<times> effect list" where
  "clear_chat d chat_id =
     (let d' = AList.update chat_id empty_chat d in (d', [Save d']))"

text \<open>\<open>chat["polls"].append(poll_data)\<close> changes the chat inside \<open>data\<close>.\<close>

definition add_poll :: "data \<Rightarrow> string \<Rightarrow> poll_result \<Rightarrow> data \<times> effect list" where
  "add_poll d chat_id poll =
     (case get_chat d chat_id of (d1, e1, chat) \<Rightarrow>
        (let d2 = AList.update chat_id (chat\<lparr>polls := polls chat @ [poll]\<rparr>) d1
         in (d2, e1 @ [Save d2])))"

definition set_active_poll :: "data \<Rightarrow> string \<Rightarrow> poll_data option \<Rightarrow> data \<times> effect list" where
  "set_active_poll d chat_id poll =
     (case get_chat d chat_id of (d1, e1, chat) \<Rightarrow>
        (let d2 = AList.update chat_id (chat\<lparr>active_poll := poll\<rparr>) d1
         in (d2, e1 @ [Save d2])))"

text \<open>\<open>[poll["winner"] for poll in chat["polls"] if poll.get("winner")]\<close>: a string is
  true when it is not empty.\<close>

definition get_code_history :: "data \<Rightarrow> string \<Rightarrow> data \<times> effect list \<times> string list" where
  "get_code_history d chat_id =
     (case get_chat d chat_id of (d1, e1, chat) \<Rightarrow>
        (d1, e1, [winner poll. poll \<leftarrow> polls chat, winner poll \<noteq> []]))"

section \<open>Configuration and the outside world\<close>

record config =
  ADMIN_IDS :: "int list"
  POLL_TIMEOUT :: int

definition is_admin :: "config \<Rightarrow> int \<Rightarrow> bool" where
  "is_admin cfg user_id = (user_id \<in> set (ADMIN_IDS cfg))"

text \<open>
  What \<open>send_poll\<close> reads from outside after its \<open>await\<close>: the result of
  \<open>bot.send_poll\<close> (\<open>None\<close> when it raised, else the poll id and the message id),
  the float that \<open>datetime.now().timestamp() + POLL_TIMEOUT\<close> evaluates to, and the
  clock as \<open>isoformat\<close> gives it. The float is taken as it is: the model does no
  arithmetic on it.
\<close>

record poll_inputs =
  publish :: "(string \<times> int) option"
  deadline :: real
  now_iso :: string

text \<open>
  What \<open>close_poll\<close> reads from outside: whether \<open>bot.stop_poll\<close> and
  \<open>bot.send_message\<close> returned or raised, and the clock.
\<close>

record close_inputs =
  stop_ok :: bool
  closed_iso :: string
  announce_ok :: bool

section \<open>Polls\<close>

subsection \<open>The backend: \<open>call_llm\<close>\<close>

text \<open>
  A JSON document as \<open>json.dump\<close> writes it and as \<open>json.load\<close> and
  \<open>response.json()\<close> read it. An object has string keys only.
\<close>

datatype json =
    JNull
  | JBool bool
  | JInt int
  | JFloat real
  | JStr string
  | JArr "json list"
  | JObj "(string \<times> json) list"

text \<open>
  \<open>json.load\<close> builds a dict from the pairs of an object in their order; a key that
  comes again replaces the value and keeps the place.
\<close>

definition py_dict :: "('k \<times> 'v) list \<Rightarrow> ('k \<times> 'v) list" where
  "py_dict pairs = foldl (\<lambda>al (k, v). AList.update k v al) [] pairs"

text \<open>Whether Python counts a value read from JSON as true.\<close>

fun truthy :: "json \<Rightarrow> bool" where
  "truthy JNull = False"
| "truthy (JBool b) = b"
| "truthy (JInt n) = (n \<noteq> 0)"
| "truthy (JFloat x) = (x \<noteq> 0)"
| "truthy (JStr s) = (s \<noteq> [])"
| "truthy (JArr xs) = (xs \<noteq> [])"
| "truthy (JObj ps) = (ps \<noteq> [])"

text \<open>
  \<open>value.get(key, default)\<close>: only a dict has \<open>get\<close>; \<open>None\<close> stands for the
  \<open>AttributeError\<close> on any other value.
\<close>

definition py_get :: "json \<Rightarrow> string \<Rightarrow> json \<Rightarrow> json option" where
  "py_get j key dflt =
     (case j of
        JObj ps \<Rightarrow> Some (case map_of (py_dict ps) key of None \<Rightarrow> dflt | Some v \<Rightarrow> v)
      | _ \<Rightarrow> None)"

text \<open>
  \<open>call_llm\<close>. The argument is what \<open>requests.post(...).json()\<close> gives: \<open>None\<close>
  when the request or the parsing raised, else the body. The result is the value
  returned and the lines logged. Every exception ends in the \<open>except\<close> clause, which
  logs an error and returns the empty string. The value under \<open>"response"\<close> is
  returned as it is, whatever its type.
\<close>

definition call_llm :: "json option \<Rightarrow> json \<times> effect list" where
  "call_llm http =
     (case http of
        None \<Rightarrow> (JStr [], [Log ERROR])
      | Some result \<Rightarrow>
          (case py_get result ''success'' JNull of
             None \<Rightarrow> (JStr [], [Log ERROR])
           | Some success \<Rightarrow>
               if \<not> truthy success then (JStr [], [Log ERROR])
               else
                 (case py_get result ''result'' (JObj []) of
                    None \<Rightarrow> (JStr [], [Log ERROR])
                  | Some r \<Rightarrow>
                      (case py_get r ''response'' (JStr []) of
                         None \<Rightarrow> (JStr [], [Log ERROR])
                       | Some response \<Rightarrow> (response, [])))))"

datatype py_exception = AttributeError

text \<open>
  \<open>generate_code_options\<close>: the fallback lists when the reply is not true (line 155),
  else \<open>response.split\<close>, which only a string has: any other true value raises
  \<open>AttributeError\<close> at line 172.
\<close>

definition generate_code_options ::
  "string list \<Rightarrow> json option \<Rightarrow> (py_exception + string list) \<times> effect list" where
  "generate_code_options code_history http =
     (case call_llm http of (response, e) \<Rightarrow>
        if \<not> truthy response
        then (Inr (if code_history = [] then fallback_first else fallback_next), e)
        else (case response of
                JStr text \<Rightarrow> (Inr (options_from_text text), e)
              | _ \<Rightarrow> (Inl AttributeError, e)))"

subsection \<open>\<open>send_poll\<close>, before and after its \<open>await\<close>\<close>

text \<open>
  \<open>send_poll\<close> suspends once, at \<open>await context.bot.send_poll(...)\<close> (line 500), and
  other coroutines run until the gateway answers. So it is two functions: what runs
  up to the call (lines 494 to 506) and what runs when the call has returned (lines 509
  to 528).

  Up to the call: the history, the options, the call. An exception of
  \<open>generate_code_options\<close> ends \<open>send_poll\<close> in its \<open>except\<close> clause; the result
  \<open>None\<close> tells that, else the options sent are returned.
\<close>

definition send_poll_request ::
  "data \<Rightarrow> int \<Rightarrow> json option \<Rightarrow> data \<times> effect list \<times> string list option" where
  "send_poll_request d chat_id http =
     (case get_code_history d (str_int chat_id) of (d1, e1, code_history) \<Rightarrow>
        (case generate_code_options code_history http of
           (Inl err, e2) \<Rightarrow> (d1, e1 @ e2 @ [Log ERROR], None)
         | (Inr opts, e2) \<Rightarrow>
             (d1, e1 @ e2 @ [Log INFO, SendPoll chat_id (length code_history + 1) opts],
              Some opts)))"

text \<open>
  When the call has returned: the poll is stored as the active poll of the chat,
  whatever the chat holds by then, and its closing is scheduled.
\<close>

definition send_poll_record ::
  "config \<Rightarrow> data \<Rightarrow> int \<Rightarrow> string list \<Rightarrow> poll_inputs \<Rightarrow> data \<times> effect list" where
  "send_poll_record cfg d chat_id opts inp =
     (case publish inp of
        None \<Rightarrow> (d, [Log ERROR])
      | Some (pid, mid) \<Rightarrow>
          (let poll_data = \<lparr>poll_id = pid, options = opts,
                            votes = map (\<lambda>i. (KInt (int i), 0)) [0..<4],
                            message_id = mid, close_time = deadline inp,
                            created_at = now_iso inp\<rparr>
           in case set_active_poll d (str_int chat_id) (Some poll_data) of (d2, e3) \<Rightarrow>
                (d2, e3 @ [Log INFO, RunOnce (POLL_TIMEOUT cfg) chat_id pid])))"

subsection \<open>Votes and closing\<close>

text \<open>
  The inner loop of \<open>poll_answer_handler\<close>:
  \<^verbatim>\<open>for option_id in poll_answer.option_ids:
      if option_id in active_poll["votes"]:
          active_poll["votes"][option_id] += 1\<close>
\<close>

fun count_votes :: "votes \<Rightarrow> int list \<Rightarrow> votes" where
  "count_votes vs [] = vs"
| "count_votes vs (option_id # option_ids) =
     count_votes
       (if KInt option_id \<in> fst ` set vs
        then AList.map_entry (KInt option_id) (\<lambda>n. n + 1) vs else vs)
       option_ids"

text \<open>
  The outer loop: the chats in dict order, up to the first whose active poll has this
  id (\<open>break\<close>). \<open>None\<close> when no chat has it.
\<close>

fun find_poll :: "data \<Rightarrow> string \<Rightarrow> int list \<Rightarrow> data option" where
  "find_poll [] pid option_ids = None"
| "find_poll ((chat_id_str, chat) # rest) pid option_ids =
     (case active_poll chat of
        None \<Rightarrow> map_option (Cons (chat_id_str, chat)) (find_poll rest pid option_ids)
      | Some ap \<Rightarrow>
          if poll_id ap = pid
          then Some ((chat_id_str,
                      chat\<lparr>active_poll := Some (ap\<lparr>votes := count_votes (votes ap) option_ids\<rparr>)\<rparr>)
                     # rest)
          else map_option (Cons (chat_id_str, chat)) (find_poll rest pid option_ids))"

definition poll_answer_handler :: "data \<Rightarrow> string \<Rightarrow> int list \<Rightarrow> data \<times> effect list" where
  "poll_answer_handler d pid option_ids =
     (case find_poll d pid option_ids of
        None \<Rightarrow> (d, [])
      | Some d' \<Rightarrow> (d', [Save d', Log INFO]))"

text \<open>
  \<open>max(votes, key=votes.get)\<close>: the first key, in dict order, whose count no other
  count exceeds; \<open>None\<close> stands for the \<open>ValueError\<close> on an empty dict.
\<close>

fun max_scan :: "pykey \<times> int \<Rightarrow> votes \<Rightarrow> pykey \<times> int" where
  "max_scan best [] = best"
| "max_scan best (kv # rest) = (if snd kv > snd best then max_scan kv rest else max_scan best rest)"

definition py_max_key :: "votes \<Rightarrow> pykey option" where
  "py_max_key vs = (case vs of [] \<Rightarrow> None | kv # rest \<Rightarrow> Some (fst (max_scan kv rest)))"

text \<open>\<open>xs[i]\<close> for an \<open>int\<close>: a negative index counts from the end; \<open>None\<close> stands
  for the \<open>IndexError\<close>.\<close>

definition py_index :: "'a list \<Rightarrow> int \<Rightarrow> 'a option" where
  "py_index xs i =
     (let n = int (length xs); j = (if i < 0 then i + n else i)
      in if 0 \<le> j \<and> j < n then Some (xs ! nat j) else None)"

text \<open>
  \<open>close_poll\<close> up to its \<open>asyncio.sleep(5)\<close>. Every exception ends in the
  \<open>except\<close> clause, which logs an error. The boolean tells whether the coroutine
  goes on after the sleep (\<open>close_poll_recheck\<close>).
\<close>

definition close_poll ::
  "data \<Rightarrow> int \<Rightarrow> string \<Rightarrow> bool \<Rightarrow> close_inputs \<Rightarrow> data \<times> effect list \<times> bool" where
  "close_poll d chat_id pid flag_stop inp =
     (let chat_id_str = str_int chat_id in
      case get_chat d chat_id_str of (d1, e1, chat_data) \<Rightarrow>
        (case active_poll chat_data of
           None \<Rightarrow> (d1, e1 @ [Log WARNING], False)
         | Some ap \<Rightarrow>
             if poll_id ap \<noteq> pid then (d1, e1 @ [Log WARNING], False)
             else
               (let e2 = e1 @ [StopPoll chat_id (message_id ap)]
                            @ (if stop_ok inp then [] else [Log ERROR])
                in case py_max_key (votes ap) of
                     None \<Rightarrow> (d1, e2 @ [Log ERROR], False)
                   | Some (KStr s) \<Rightarrow> (d1, e2 @ [Log ERROR], False)
                   | Some (KInt wi) \<Rightarrow>
                       (case py_index (options ap) wi of
                          None \<Rightarrow> (d1, e2 @ [Log ERROR], False)
                        | Some winner_line \<Rightarrow>
                            (let poll_result =
                                   \<lparr>poll_id = pid, options = options ap, votes = votes ap,
                                    winner = winner_line, winner_index = wi,
                                    closed_at = closed_iso inp\<rparr>
                             in case add_poll d1 chat_id_str poll_result of (d2, e3) \<Rightarrow>
                                case set_active_poll d2 chat_id_str None of (d3, e4) \<Rightarrow>
                                  (case map_of (votes ap) (KInt wi) of
                                     None \<Rightarrow> (d3, e2 @ e3 @ e4 @ [Log ERROR], False)
                                   | Some n \<Rightarrow>
                                       (let e5 = e2 @ e3 @ e4 @ [SendMessage chat_id winner_line n]
                                        in if \<not> announce_ok inp then (d3, e5 @ [Log ERROR], False)
                                           else if flag_stop then (d3, e5 @ [Log INFO], False)
                                           else (d3, e5 @ [Log INFO, Sleep 5], True))))))))"

text \<open>
  \<open>close_poll\<close> after the sleep, lines 617 to 619: the chat is read again; the boolean
  tells whether \<open>send_poll\<close> is called (line 620).
\<close>

definition close_poll_recheck :: "data \<Rightarrow> int \<Rightarrow> data \<times> effect list \<times> bool" where
  "close_poll_recheck d chat_id =
     (case get_chat d (str_int chat_id) of (d1, e1, chat_data) \<Rightarrow>
        (d1, e1, active_poll chat_data = None))"

text \<open>
  \<open>/sendnow\<close>, lines 390 to 402: the admin check, the test for an active poll, the
  reply. The boolean tells whether the command goes on to \<open>send_poll\<close> (line 403),
  which it does when the \<open>await\<close> of the reply has returned.
\<close>

definition sendnow_command :: "config \<Rightarrow> data \<Rightarrow> int \<Rightarrow> int \<Rightarrow> data \<times> effect list \<times> bool" where
  "sendnow_command cfg d user_id chat_id =
     (if \<not> is_admin cfg user_id then (d, [ReplyText AdminOnly], False)
      else case get_chat d (str_int chat_id) of (d1, e1, chat_data) \<Rightarrow>
        (case active_poll chat_data of
           Some ap \<Rightarrow> (d1, e1 @ [ReplyText AlreadyActive], False)
         | None \<Rightarrow> (d1, e1 @ [ReplyText SendingPoll], True)))"

section \<open>Reading the store and the effects\<close>

text \<open>The states of the store that a list of effects saved, in order.\<close>

fun saved :: "effect list \<Rightarrow> data list" where
  "saved [] = []"
| "saved (Save d # es) = d # saved es"
| "saved (e # es) = saved es"

definition active_of :: "data \<Rightarrow> string \<Rightarrow> poll_data option" where
  "active_of d chat_id =
     (case map_of d chat_id of None \<Rightarrow> None | Some chat \<Rightarrow> active_poll chat)"

text \<open>
  From one state of the store to the next, no chat gets an active poll in place of
  another one: a chat that has an active poll afterwards had none before, or had the
  same poll up to its vote counts.
\<close>

definition opens_from_null :: "data \<Rightarrow> data \<Rightarrow> bool" where
  "opens_from_null d d' =
     list_all (\<lambda>(chat_id, chat').
        (case active_of d' chat_id of
           None \<Rightarrow> True
         | Some p' \<Rightarrow>
             (case active_of d chat_id of
                None \<Rightarrow> True
              | Some p \<Rightarrow> p'\<lparr>votes := votes p\<rparr> = p))) d'"

fun all_open_from_null :: "data list \<Rightarrow> bool" where
  "all_open_from_null [] = True"
| "all_open_from_null [d] = True"
| "all_open_from_null (d # d' # ds) = (opens_from_null d d' \<and> all_open_from_null (d' # ds))"

text \<open>The archived polls of a chat, none for a chat the store does not hold.\<close>

definition polls_of :: "data \<Rightarrow> string \<Rightarrow> poll_result list" where
  "polls_of d chat_id = (case map_of d chat_id of None \<Rightarrow> [] | Some chat \<Rightarrow> polls chat)"

text \<open>The line history of a chat: what \<open>get_code_history\<close> returns.\<close>

definition history_of :: "data \<Rightarrow> string \<Rightarrow> string list" where
  "history_of d chat_id = snd (snd (get_code_history d chat_id))"

text \<open>The count of option \<open>i\<close> in a votes dict with \<open>int\<close> keys, 0 for a missing key.\<close>

definition vote_count :: "votes \<Rightarrow> int \<Rightarrow> int" where
  "vote_count vs i = (case map_of vs (KInt i) of None \<Rightarrow> 0 | Some n \<Rightarrow> n)"

fun is_send_message :: "effect \<Rightarrow> bool" where
  "is_send_message (SendMessage c w n) = True"
| "is_send_message e = False"

section \<open>The file: \<open>save\<close> and \<open>load\<close>\<close>

text \<open>\<open>json.dump\<close> writes an \<open>int\<close> key of a dict as its decimal string.\<close>

fun key_str :: "pykey \<Rightarrow> string" where
  "key_str (KInt i) = str_int i"
| "key_str (KStr s) = s"

definition votes_json :: "votes \<Rightarrow> json" where
  "votes_json vs = JObj (map (\<lambda>(k, n). (key_str k, JInt n)) vs)"

definition poll_data_json :: "poll_data \<Rightarrow> json" where
  "poll_data_json p =
     JObj [(''poll_id'', JStr (poll_id p)),
           (''message_id'', JInt (message_id p)),
           (''options'', JArr (map JStr (options p))),
           (''votes'', votes_json (votes p)),
           (''close_time'', JFloat (close_time p)),
           (''created_at'', JStr (created_at p))]"

definition poll_result_json :: "poll_result \<Rightarrow> json" where
  "poll_result_json r =
     JObj [(''poll_id'', JStr (poll_id r)),
           (''options'', JArr (map JStr (options r))),
           (''votes'', votes_json (votes r)),
           (''winner'', JStr (winner r)),
           (''winner_index'', JInt (winner_index r)),
           (''closed_at'', JStr (closed_at r))]"

definition chat_json :: "chat_data \<Rightarrow> json" where
  "chat_json chat =
     JObj [(''polls'', JArr (map poll_result_json (polls chat))),
           (''active_poll'', (case active_poll chat of None \<Rightarrow> JNull
                                                     | Some p \<Rightarrow> poll_data_json p))]"

text \<open>\<open>save\<close>: the document \<open>json.dump(self.data, f)\<close> writes.\<close>

definition save :: "data \<Rightarrow> json" where
  "save d = JObj [(''chats'', JObj (map (\<lambda>(chat_id, chat). (chat_id, chat_json chat)) d))]"

text \<open>
  Reading the document back gives dicts with \<open>str\<close> keys. The functions below read
  the dicts of a document that has the layout of the store; \<open>None\<close> is a document of
  another layout, which the records do not describe.
\<close>

fun the_strs :: "json list \<Rightarrow> string list option" where
  "the_strs [] = Some []"
| "the_strs (JStr s # js) = map_option (Cons s) (the_strs js)"
| "the_strs (j # js) = None"

fun the_counts :: "(string \<times> json) list \<Rightarrow> votes option" where
  "the_counts [] = Some []"
| "the_counts ((k, JInt n) # ps) = map_option (Cons (KStr k, n)) (the_counts ps)"
| "the_counts (p # ps) = None"

definition votes_load :: "json \<Rightarrow> votes option" where
  "votes_load j = (case j of JObj ps \<Rightarrow> map_option py_dict (the_counts ps) | _ \<Rightarrow> None)"

definition poll_data_load :: "json \<Rightarrow> poll_data option" where
  "poll_data_load j =
     (case j of
        JObj ps \<Rightarrow>
          (let m = map_of (py_dict ps) in
           case (m ''poll_id'', m ''message_id'', m ''options'', m ''votes'',
                 m ''close_time'', m ''created_at'') of
             (Some (JStr pid), Some (JInt mid), Some (JArr os), Some vs,
              Some (JFloat ct), Some (JStr ca)) \<Rightarrow>
               (case (the_strs os, votes_load vs) of
                  (Some os', Some vs') \<Rightarrow>
                    Some \<lparr>poll_id = pid, options = os', votes = vs', message_id = mid,
                          close_time = ct, created_at = ca\<rparr>
                | _ \<Rightarrow> None)
           | _ \<Rightarrow> None)
      | _ \<Rightarrow> None)"

definition poll_result_load :: "json \<Rightarrow> poll_result option" where
  "poll_result_load j =
     (case j of
        JObj ps \<Rightarrow>
          (let m = map_of (py_dict ps) in
           case (m ''poll_id'', m ''options'', m ''votes'', m ''winner'',
                 m ''winner_index'', m ''closed_at'') of
             (Some (JStr pid), Some (JArr os), Some vs, Some (JStr w),
              Some (JInt wi), Some (JStr ca)) \<Rightarrow>
               (case (the_strs os, votes_load vs) of
                  (Some os', Some vs') \<Rightarrow>
                    Some \<lparr>poll_id = pid, options = os', votes = vs', winner = w,
                          winner_index = wi, closed_at = ca\<rparr>
                | _ \<Rightarrow> None)
           | _ \<Rightarrow> None)
      | _ \<Rightarrow> None)"

fun those_list :: "'a option list \<Rightarrow> 'a list option" where
  "those_list [] = Some []"
| "those_list (None # xs) = None"
| "those_list (Some x # xs) = map_option (Cons x) (those_list xs)"

definition chat_load :: "json \<Rightarrow> chat_data option" where
  "chat_load j =
     (case j of
        JObj ps \<Rightarrow>
          (let m = map_of (py_dict ps) in
           case (m ''polls'', m ''active_poll'') of
             (Some (JArr rs), Some a) \<Rightarrow>
               (case (those_list (map poll_result_load rs),
                      (case a of JNull \<Rightarrow> Some None
                               | _ \<Rightarrow> map_option Some (poll_data_load a))) of
                  (Some rs', Some a') \<Rightarrow> Some \<lparr>polls = rs', active_poll = a'\<rparr>
                | _ \<Rightarrow> None)
           | _ \<Rightarrow> None)
      | _ \<Rightarrow> None)"

text \<open>
  \<open>load\<close>: no file gives \<open>{"chats": {}}\<close>, a file gives what \<open>json.load\<close> reads.
\<close>

definition load :: "json option \<Rightarrow> data option" where
  "load file =
     (case file of
        None \<Rightarrow> Some []
      | Some (JObj ps) \<Rightarrow>
          (case map_of (py_dict ps) ''chats'' of
             Some (JObj cs) \<Rightarrow>
               map_option py_dict
                 (those_list (map (\<lambda>(chat_id, j). map_option (Pair chat_id) (chat_load j)) cs))
           | _ \<Rightarrow> None)
      | Some _ \<Rightarrow> None)"

section \<open>A sample store\<close>

text \<open>
  Chat 7 with an open poll as \<open>send_poll\<close> builds it, after votes 3, 3, 1, 0, and one
  archived poll.
\<close>

definition demo_cfg :: config where
  "demo_cfg = \<lparr>ADMIN_IDS = [1], POLL_TIMEOUT = 300\<rparr>"

definition demo_poll :: poll_data where
  "demo_poll =
     \<lparr>poll_id = ''p2'', options = [''y = 2'', ''import sys'', ''print(x)'', ''pass''],
      votes = [(KInt 0, 3), (KInt 1, 3), (KInt 2, 1), (KInt 3, 0)],
      message_id = 11, close_time = 600, created_at = ''t2''\<rparr>"

definition demo_result :: poll_result where
  "demo_result =
     \<lparr>poll_id = ''p1'', options = [''x = 1'', ''import os'', ''pass'', ''x = 0''],
      votes = [(KInt 0, 2), (KInt 1, 0), (KInt 2, 1), (KInt 3, 0)],
      winner = ''x = 1'', winner_index = 0, closed_at = ''t1''\<rparr>"

definition demo_data :: data where
  "demo_data = [(''7'', \<lparr>polls = [demo_result], active_poll = Some demo_poll\<rparr>)]"

definition demo_close :: close_inputs where
  "demo_close = \<lparr>stop_ok = True, closed_iso = ''t3'', announce_ok = True\<rparr>"

text \<open>A second chat, 8, with an open poll of its own and no votes yet.\<close>

definition demo_other :: poll_data where
  "demo_other =
     \<lparr>poll_id = ''q1'', options = [''a = 1'', ''b = 2'', ''c = 3'', ''d = 4''],
      votes = [(KInt 0, 0), (KInt 1, 0), (KInt 2, 0), (KInt 3, 0)],
      message_id = 20, close_time = 650, created_at = ''t2''\<rparr>"

definition demo_two :: data where
  "demo_two = demo_data @ [(''8'', \<lparr>polls = [], active_poll = Some demo_other\<rparr>)]"

text \<open>
  The sample store as \<open>json.load\<close> gives it back: the votes dicts have the string keys
  \<open>"0"\<close> to \<open>"3"\<close>.
\<close>

definition reloaded_votes :: "int \<Rightarrow> int \<Rightarrow> int \<Rightarrow> int \<Rightarrow> votes" where
  "reloaded_votes a b c e = [(KStr ''0'', a), (KStr ''1'', b), (KStr ''2'', c), (KStr ''3'', e)]"

definition demo_reloaded :: data where
  "demo_reloaded =
     [(''7'', \<lparr>polls = [demo_result\<lparr>votes := reloaded_votes 2 0 1 0\<rparr>],
               active_poll = Some (demo_poll\<lparr>votes := reloaded_votes 3 3 1 0\<rparr>)\<rparr>)]"

text \<open>Chat 7 alone and idle: one archived poll, no active poll.\<close>

definition demo_idle :: data where
  "demo_idle = [(''7'', \<lparr>polls = [demo_result], active_poll = None\<rparr>)]"

text \<open>
  The sample store while its open poll is closed at \<open>t3\<close>, option 0 having won:
  after \<open>add_poll\<close>, and after \<open>set_active_poll(None)\<close>.
\<close>

definition demo_archived :: data where
  "demo_archived =
     [(''7'', \<lparr>polls = [demo_result,
                         \<lparr>poll_id = ''p2'', options = options demo_poll,
                          votes = votes demo_poll, winner = ''y = 2'', winner_index = 0,
                          closed_at = ''t3''\<rparr>],
               active_poll = Some demo_poll\<rparr>)]"

definition demo_closed :: data where
  "demo_closed =
     [(''7'', \<lparr>polls = [demo_result,
                         \<lparr>poll_id = ''p2'', options = options demo_poll,
                          votes = votes demo_poll, winner = ''y = 2'', winner_index = 0,
                          closed_at = ''t3''\<rparr>],
               active_poll = None\<rparr>)]"

text \<open>
  A body of the backend whose \<open>"response"\<close> is a list of lines and not a string:
  \<open>{"success": true, "result": {"response": ["x = 1"]}}\<close>.
\<close>

definition demo_body :: json where
  "demo_body =
     JObj [(''success'', JBool True),
           (''result'', JObj [(''response'', JArr [JStr ''x = 1''])])]"

text \<open>
  Two answers of the gateway to \<open>bot.send_poll\<close> for chat 7, and the idle chat
  after the first poll is recorded and after the second is.
\<close>

definition demo_first :: poll_inputs where
  "demo_first = \<lparr>publish = Some (''pA'', 21), deadline = 1300, now_iso = ''t6''\<rparr>"

definition demo_second :: poll_inputs where
  "demo_second = \<lparr>publish = Some (''pB'', 22), deadline = 1301, now_iso = ''t7''\<rparr>"

definition demo_after_first :: data where
  "demo_after_first =
     [(''7'', \<lparr>polls = [demo_result],
               active_poll = Some
                 \<lparr>poll_id = ''pA'', options = fallback_next,
                  votes = [(KInt 0, 0), (KInt 1, 0), (KInt 2, 0), (KInt 3, 0)],
                  message_id = 21, close_time = 1300, created_at = ''t6''\<rparr>\<rparr>)]"

definition demo_after_second :: data where
  "demo_after_second =
     [(''7'', \<lparr>polls = [demo_result],
               active_poll = Some
                 \<lparr>poll_id = ''pB'', options = fallback_next,
                  votes = [(KInt 0, 0), (KInt 1, 0), (KInt 2, 0), (KInt 3, 0)],
                  message_id = 22, close_time = 1301, created_at = ''t7''\<rparr>\<rparr>)]"


section \<open>Properties of candidate generation\<close>

lemma str_nat_1: "str_nat (Suc 0) = ''1''" by (simp add: str_nat.simps digit_char_def)
lemma str_nat_2: "str_nat (Suc (Suc 0)) = ''2''" by (simp add: str_nat.simps digit_char_def)
lemma str_nat_3: "str_nat (Suc (Suc (Suc 0))) = ''3''" by (simp add: str_nat.simps digit_char_def)
lemma str_nat_4: "str_nat (Suc (Suc (Suc (Suc 0)))) = ''4''" by (simp add: str_nat.simps digit_char_def)

lemma is_space_space: "is_space (CHR '' '')" by (simp add: is_space_def)

lemma strip_no_lead: "strip s \<noteq> [] \<Longrightarrow> \<not> is_space (hd (strip s))"
  unfolding strip_def by (rule hd_dropWhile)

lemma take_unique_length: "length u < 4 \<Longrightarrow> length (take_unique u ls) \<le> 4"
  by (induction ls arbitrary: u) (auto simp: Let_def)

lemma take_unique_distinct: "distinct u \<Longrightarrow> distinct (take_unique u ls)"
  by (induction ls arbitrary: u) (auto simp: Let_def)

lemma take_unique_set: "set (take_unique u ls) \<subseteq> set u \<union> set ls"
proof (induction ls arbitrary: u)
  case Nil
  show ?case by simp
next
  case (Cons l ls)
  have "set (take_unique (u @ [l]) ls) \<subseteq> set (u @ [l]) \<union> set ls" by (rule Cons.IH)
  moreover have "set (take_unique u ls) \<subseteq> set u \<union> set ls" by (rule Cons.IH)
  ultimately show ?case by (auto simp: Let_def)
qed


lemma pad_options_shape:
  assumes "length u \<le> 4" "distinct u" "\<forall>l\<in>set u. unpadded l"
  shows "length (pad_options u) = 4 \<and> distinct (pad_options u)
         \<and> (\<forall>l\<in>set (pad_options u). l \<noteq> [] \<and> length l \<le> 95)"
proof -
  consider "length u = 4" | "length u = 3" | "length u = 2" | "length u = 1" | "length u = 0"
    using assms(1) by linarith
  then show ?thesis
  proof cases
    case 1
    then show ?thesis using assms by (auto simp: pad_options.simps[of u] unpadded_def)
  next
    case 2
    then obtain a b c where u: "u = [a, b, c]"
      by (auto simp: length_Suc_conv numeral_3_eq_3)
    show ?thesis using assms unfolding u 
      by (auto simp: pad_options.simps[of "[a,b,c]"] pad_options.simps[of "[a,b,c,d]" for d] str_nat_4 unpadded_def)
  next
    case 3
    then obtain a b where u: "u = [a, b]"
      by (auto simp: length_Suc_conv numeral_2_eq_2)
    show ?thesis using assms unfolding u 
      by (auto simp: pad_options.simps[of "[a,b]"] pad_options.simps[of "[a,b,c]" for c] pad_options.simps[of "[a,b,c,d]" for c d] str_nat_3 str_nat_4 unpadded_def)
  next
    case 4
    then obtain a where u: "u = [a]"
      by (auto simp: length_Suc_conv)
    show ?thesis using assms unfolding u 
      by (auto simp: pad_options.simps[of "[a]"] pad_options.simps[of "[a,b]" for b] pad_options.simps[of "[a,b,c]" for b c] pad_options.simps[of "[a,b,c,d]" for b c d] str_nat_2 str_nat_3 str_nat_4 unpadded_def)
  next
    case 5
    then have u: "u = []" by simp
    show ?thesis unfolding u 
      by (auto simp: pad_options.simps[of "[]"] pad_options.simps[of "[a]" for a] pad_options.simps[of "[a,b]" for a b] pad_options.simps[of "[a,b,c]" for a b c] pad_options.simps[of "[a,b,c,d]" for a b c d] str_nat_1 str_nat_2 str_nat_3 str_nat_4)
  qed
qed

lemma pad_options_append:
  assumes "length u \<le> 4"
  shows "pad_options u = u @ map (\<lambda>k. ''    # Option '' @ str_nat k) [Suc (length u) ..< 5]"
  using assms
proof (induction u rule: pad_options.induct)
  case (1 u)
  show ?case
  proof (cases "length u < 4")
    case True
    then have "pad_options u = pad_options (u @ [''    # Option '' @ str_nat (length u + 1)])"
      by (simp add: pad_options.simps[of u])
    also have "\<dots> = (u @ [''    # Option '' @ str_nat (length u + 1)])
                 @ map (\<lambda>k. ''    # Option '' @ str_nat k) [Suc (Suc (length u)) ..< 5]"
      using "1.IH"[OF True] True by simp
    also have "\<dots> = u @ map (\<lambda>k. ''    # Option '' @ str_nat k) [Suc (length u) ..< 5]"
      using True by (simp add: upt_conv_Cons)
    finally show ?thesis .
  next
    case False
    with "1.prems" have "length u = 4" by simp
    then show ?thesis by (simp add: pad_options.simps[of u])
  qed
qed

lemma candidate_lines_unpadded: "l \<in> set (candidate_lines r) \<Longrightarrow> unpadded l"
proof -
  assume "l \<in> set (candidate_lines r)"
  then obtain s where l: "l = strip s" and ne: "l \<noteq> []" and le: "length l \<le> 95"
    by (auto simp: candidate_lines_def Let_def)
  from strip_no_lead[of s] l ne is_space_space have "hd l \<noteq> CHR '' ''" by auto
  with ne le show ?thesis by (simp add: unpadded_def)
qed

text \<open>
  A reply that is a string always gives four options: exactly 4 strings, pairwise
  distinct, none empty, each of at most 95 characters, namely the first distinct usable
  lines of the reply followed by the numbered placeholders \<open>"    # Option N"\<close>.
\<close>

lemma options_from_text_four:
  "length (options_from_text r) = 4
   \<and> distinct (options_from_text r)
   \<and> (\<forall>l\<in>set (options_from_text r). l \<noteq> [] \<and> length l \<le> 95)
   \<and> options_from_text r =
          take_unique [] (candidate_lines r)
          @ map (\<lambda>k. ''    # Option '' @ str_nat k)
              [Suc (length (take_unique [] (candidate_lines r))) ..< 5]"
proof -
  define u where "u = take_unique [] (candidate_lines r)"
  have len: "length u \<le> 4" unfolding u_def by (rule take_unique_length) simp
  have dis: "distinct u" unfolding u_def by (rule take_unique_distinct) simp
  have unp: "\<forall>l\<in>set u. unpadded l"
    using take_unique_set[of "[]" "candidate_lines r"] candidate_lines_unpadded
    unfolding u_def by auto
  have shape: "length (pad_options u) = 4 \<and> distinct (pad_options u)
         \<and> (\<forall>l\<in>set (pad_options u). l \<noteq> [] \<and> length l \<le> 95)"
    using len dis unp by (rule pad_options_shape)
  have g: "options_from_text r = pad_options u"
    using shape by (simp add: options_from_text_def Let_def u_def)
  show ?thesis using shape pad_options_append[OF len] unfolding g u_def by simp
qed

lemma fallback_four:
  "length fallback_first = 4 \<and> distinct fallback_first
   \<and> (\<forall>l\<in>set fallback_first. l \<noteq> [] \<and> length l \<le> 95)"
  "length fallback_next = 4 \<and> distinct fallback_next
   \<and> (\<forall>l\<in>set fallback_next. l \<noteq> [] \<and> length l \<le> 95)"
  by (simp_all add: fallback_first_def fallback_next_def)

text \<open>Whenever \<open>generate_code_options\<close> returns, it returns four such options.\<close>

lemma generate_code_options_returns:
  assumes "generate_code_options h http = (Inr xs, e)"
  shows "length xs = 4 \<and> distinct xs \<and> (\<forall>l\<in>set xs. l \<noteq> [] \<and> length l \<le> 95)"
proof -
  obtain v e' where c: "call_llm http = (v, e')" by (cases "call_llm http")
  show ?thesis
  proof (cases "truthy v")
    case False
    with assms c have "xs = fallback_first \<or> xs = fallback_next"
      by (auto simp: generate_code_options_def split: if_splits)
    then show ?thesis using fallback_four by blast
  next
    case True
    with assms c obtain r where x: "xs = options_from_text r"
      by (cases v) (auto simp: generate_code_options_def)
    have "length (options_from_text r) = 4 \<and> distinct (options_from_text r)
          \<and> (\<forall>l\<in>set (options_from_text r). l \<noteq> [] \<and> length l \<le> 95)"
      using options_from_text_four[of r] by blast
    then show ?thesis unfolding x .
  qed
qed

text \<open>It raises exactly when \<open>call_llm\<close> returns a true value that is not a string.\<close>

lemma generate_code_options_raises:
  "(\<exists>x e. generate_code_options h http = (Inl x, e))
   \<longleftrightarrow> truthy (fst (call_llm http)) \<and> (\<forall>r. fst (call_llm http) \<noteq> JStr r)"
proof -
  obtain v e' where c: "call_llm http = (v, e')" by (cases "call_llm http")
  show ?thesis by (cases v) (auto simp: generate_code_options_def c)
qed

lemma demo_call_llm: "call_llm (Some demo_body) = (JArr [JStr ''x = 1''], [])"
  by (simp add: call_llm_def demo_body_def py_get_def py_dict_def)

text \<open>
  Claim C3. The backend answers \<open>{"success": true, "result": {"response": ["x = 1"]}}\<close>:
  the reply is a list and not a string. \<open>call_llm\<close> returns the list as it is, it
  is true, so the fallback of line 155 is not taken, and \<open>response.split\<close> raises
  \<open>AttributeError\<close>: \<open>generate_code_options\<close> returns no options, and
  \<open>send_poll\<close> ends in its \<open>except\<close> clause without calling the gateway.
\<close>

theorem generate_code_options_non_string:
  "call_llm (Some demo_body) = (JArr [JStr ''x = 1''], [])
   \<and> truthy (JArr [JStr ''x = 1''])
   \<and> generate_code_options [] (Some demo_body) = (Inl AttributeError, [])
   \<and> generate_code_options [''x = 1''] (Some demo_body) = (Inl AttributeError, [])
   \<and> send_poll_request demo_idle 7 (Some demo_body) = (demo_idle, [Log ERROR], None)"
proof -
  have t: "truthy (JArr [JStr ''x = 1''])" by simp
  have g: "generate_code_options h (Some demo_body) = (Inl AttributeError, [])" for h
    by (simp add: generate_code_options_def demo_call_llm)
  have h: "get_code_history demo_idle (str_int 7) = (demo_idle, [], [''x = 1''])"
    by (simp add: get_code_history_def get_chat_def demo_idle_def demo_result_def
          str_int_def str_nat.simps digit_char_def)
  have s: "send_poll_request demo_idle 7 (Some demo_body) = (demo_idle, [Log ERROR], None)"
    by (simp add: send_poll_request_def h g)
  show ?thesis by (rule conjI[OF demo_call_llm conjI[OF t conjI[OF g conjI[OF g s]]]])
qed

section \<open>Closing a poll\<close>

lemma get_chat_present: "map_of d c = Some chat \<Longrightarrow> get_chat d c = (d, [], chat)"
  by (simp add: get_chat_def)

lemma get_chat_absent:
  "map_of d c = None \<Longrightarrow>
   get_chat d c = (AList.update c empty_chat d, [Save (AList.update c empty_chat d)], empty_chat)"
  by (simp add: get_chat_def Let_def)

lemma add_poll_present:
  "map_of d c = Some chat \<Longrightarrow>
   add_poll d c r = (AList.update c (chat\<lparr>polls := polls chat @ [r]\<rparr>) d,
                     [Save (AList.update c (chat\<lparr>polls := polls chat @ [r]\<rparr>) d)])"
  by (simp add: add_poll_def get_chat_present Let_def)

lemma set_active_poll_present:
  "map_of d c = Some chat \<Longrightarrow>
   set_active_poll d c p = (AList.update c (chat\<lparr>active_poll := p\<rparr>) d,
                            [Save (AList.update c (chat\<lparr>active_poll := p\<rparr>) d)])"
  by (simp add: set_active_poll_def get_chat_present Let_def)

lemma map_of_update_same: "map_of (AList.update c v d) c = Some v"
  by (simp add: update_conv')

lemma update_update_same: "AList.update c v (AList.update c w d) = AList.update c v d"
  by (induction d) auto

lemma active_of_SomeD:
  "active_of d c = Some ap \<Longrightarrow> \<exists>chat. map_of d c = Some chat \<and> active_poll chat = Some ap"
  by (auto simp: active_of_def split: option.splits)

text \<open>The successful path of close_poll, in one equation.\<close>

lemma close_poll_success:
  assumes "map_of d (str_int chat_id) = Some chat" "active_poll chat = Some ap"
      "poll_id ap = pid" "py_max_key (votes ap) = Some (KInt wi)"
      "py_index (options ap) wi = Some w" "map_of (votes ap) (KInt wi) = Some n"
  shows "close_poll d chat_id pid flag_stop inp =
     (let r = \<lparr>poll_id = pid, options = options ap, votes = votes ap,
                winner = w, winner_index = wi, closed_at = closed_iso inp\<rparr>;
          d2 = AList.update (str_int chat_id) (chat\<lparr>polls := polls chat @ [r]\<rparr>) d;
          d3 = AList.update (str_int chat_id)
                 (chat\<lparr>polls := polls chat @ [r], active_poll := None\<rparr>) d
      in (d3,
          [StopPoll chat_id (message_id ap)] @ (if stop_ok inp then [] else [Log ERROR])
          @ [Save d2, Save d3, SendMessage chat_id w n]
          @ (if \<not> announce_ok inp then [Log ERROR]
             else if flag_stop then [Log INFO] else [Log INFO, Sleep 5]),
          announce_ok inp \<and> \<not> flag_stop))"
  using assms
  by (simp add: close_poll_def get_chat_present add_poll_present set_active_poll_present
        map_of_update_same update_update_same Let_def)

lemma votes_four:
  assumes "map fst vs = [KInt 0, KInt 1, KInt 2, KInt 3]"
  obtains a b c e where "vs = [(KInt 0, a), (KInt 1, b), (KInt 2, c), (KInt 3, e)]"
proof -
  have "length (map fst vs) = 4" unfolding assms by simp
  then have "length vs = 4" by simp
  then obtain p q r s where vs: "vs = [p, q, r, s]"
    by (auto simp: length_Suc_conv numeral_eq_Suc)
  with assms have "fst p = KInt 0" "fst q = KInt 1" "fst r = KInt 2" "fst s = KInt 3" by auto
  then have "vs = [(KInt 0, snd p), (KInt 1, snd q), (KInt 2, snd r), (KInt 3, snd s)]"
    unfolding vs by (metis prod.collapse)
  then show ?thesis by (rule that)
qed

lemma all_0_3: "(\<forall>j\<in>{0..3::int}. P j) = (P 0 \<and> P 1 \<and> P 2 \<and> P 3)"
proof -
  have "{0..3::int} = {0, 1, 2, 3}" by auto
  then show ?thesis by simp
qed

lemma all_below_1: "(\<forall>j\<in>{0..<1::int}. P j) = P 0"
proof -
  have "{0..<1::int} = {0}" by auto
  then show ?thesis by simp
qed

lemma all_below_2: "(\<forall>j\<in>{0..<2::int}. P j) = (P 0 \<and> P 1)"
proof -
  have "{0..<2::int} = {0, 1}" by auto
  then show ?thesis by simp
qed

lemma all_below_3: "(\<forall>j\<in>{0..<3::int}. P j) = (P 0 \<and> P 1 \<and> P 2)"
proof -
  have "{0..<3::int} = {0, 1, 2}" by auto
  then show ?thesis by simp
qed

lemma winner_four:
  assumes vs: "vs = [(KInt 0, a), (KInt 1, b), (KInt 2, c), (KInt 3, e)]"
  shows "\<exists>wi. py_max_key vs = Some (KInt wi) \<and> wi \<in> {0..3}
            \<and> map_of vs (KInt wi) = Some (vote_count vs wi)
            \<and> (\<forall>j\<in>{0..3}. vote_count vs j \<le> vote_count vs wi)
            \<and> (\<forall>j\<in>{0..<wi}. vote_count vs j < vote_count vs wi)"
proof -
  have vc: "vote_count vs 0 = a" "vote_count vs 1 = b" "vote_count vs 2 = c" "vote_count vs 3 = e"
    by (simp_all add: vs vote_count_def)
  have mo: "map_of vs (KInt 0) = Some a" "map_of vs (KInt 1) = Some b"
           "map_of vs (KInt 2) = Some c" "map_of vs (KInt 3) = Some e"
    by (simp_all add: vs)
  consider (w0) "b \<le> a" "c \<le> a" "e \<le> a"
    | (w1) "a < b" "c \<le> b" "e \<le> b"
    | (w2) "a < c" "b < c" "e \<le> c"
    | (w3) "a < e" "b < e" "c < e"
    by linarith
  then show ?thesis
  proof cases
    case w0
    then have "py_max_key vs = Some (KInt 0)" by (simp add: vs py_max_key_def)
    then show ?thesis using w0
      by (intro exI[of _ 0]) (simp add: all_0_3 vc mo)
  next
    case w1
    then have "py_max_key vs = Some (KInt 1)" by (simp add: vs py_max_key_def)
    then show ?thesis using w1
      by (intro exI[of _ 1]) (simp add: all_0_3 all_below_1 vc mo)
  next
    case w2
    then have "py_max_key vs = Some (KInt 2)" by (auto simp add: vs py_max_key_def)
    then show ?thesis using w2
      by (intro exI[of _ 2]) (simp add: all_0_3 all_below_2 vc mo)
  next
    case w3
    then have "py_max_key vs = Some (KInt 3)" by (auto simp add: vs py_max_key_def)
    then show ?thesis using w3
      by (intro exI[of _ 3]) (simp add: all_0_3 all_below_3 vc mo)
  qed
qed

lemma py_index_four:
  "length xs = 4 \<Longrightarrow> wi \<in> {0..3} \<Longrightarrow> py_index xs wi = Some (xs ! nat wi)"
  by (auto simp: py_index_def Let_def)

lemma winners_filter:
  "[winner poll. poll \<leftarrow> ps, winner poll \<noteq> []]
   = map winner (filter (\<lambda>poll. winner poll \<noteq> []) ps)"
  by (induction ps) auto

lemma history_of_present:
  "map_of d c = Some chat \<Longrightarrow>
   history_of d c = map winner (filter (\<lambda>poll. winner poll \<noteq> []) (polls chat))"
  by (simp add: history_of_def get_code_history_def get_chat_present winners_filter)

lemma polls_of_present: "map_of d c = Some chat \<Longrightarrow> polls_of d c = polls chat"
  by (simp add: polls_of_def)

lemma close_poll_wf:
  assumes a: "active_of d (str_int chat_id) = Some ap" and p: "poll_id ap = pid"
      and k: "map fst (votes ap) = [KInt 0, KInt 1, KInt 2, KInt 3]"
      and l: "length (options ap) = 4"
  obtains chat wi where
    "map_of d (str_int chat_id) = Some chat" "active_poll chat = Some ap"
    "py_max_key (votes ap) = Some (KInt wi)" "wi \<in> {0..3}"
    "\<forall>j\<in>{0..3}. vote_count (votes ap) j \<le> vote_count (votes ap) wi"
    "\<forall>j\<in>{0..<wi}. vote_count (votes ap) j < vote_count (votes ap) wi"
    "close_poll d chat_id pid flag_stop inp =
     (let r = \<lparr>poll_id = pid, options = options ap, votes = votes ap,
                winner = options ap ! nat wi, winner_index = wi, closed_at = closed_iso inp\<rparr>;
          d2 = AList.update (str_int chat_id) (chat\<lparr>polls := polls chat @ [r]\<rparr>) d;
          d3 = AList.update (str_int chat_id)
                 (chat\<lparr>polls := polls chat @ [r], active_poll := None\<rparr>) d
      in (d3,
          [StopPoll chat_id (message_id ap)] @ (if stop_ok inp then [] else [Log ERROR])
          @ [Save d2, Save d3, SendMessage chat_id (options ap ! nat wi) (vote_count (votes ap) wi)]
          @ (if \<not> announce_ok inp then [Log ERROR]
             else if flag_stop then [Log INFO] else [Log INFO, Sleep 5]),
          announce_ok inp \<and> \<not> flag_stop))"
proof -
  from active_of_SomeD[OF a] obtain chat where
    c: "map_of d (str_int chat_id) = Some chat" "active_poll chat = Some ap" by blast
  from k obtain x y z u where vs: "votes ap = [(KInt 0, x), (KInt 1, y), (KInt 2, z), (KInt 3, u)]"
    by (rule votes_four)
  from winner_four[OF vs] obtain wi where
    w: "py_max_key (votes ap) = Some (KInt wi)" "wi \<in> {0..3}"
       "map_of (votes ap) (KInt wi) = Some (vote_count (votes ap) wi)"
       "\<forall>j\<in>{0..3}. vote_count (votes ap) j \<le> vote_count (votes ap) wi"
       "\<forall>j\<in>{0..<wi}. vote_count (votes ap) j < vote_count (votes ap) wi"
    by blast
  have i: "py_index (options ap) wi = Some (options ap ! nat wi)"
    using l w(2) by (rule py_index_four)
  show ?thesis
    using c w(1,2,4,5) close_poll_success[OF c p w(1) i w(3)] by (rule that)
qed

text \<open>
  Claim C1. When \<open>close_poll\<close> runs on a chat whose active poll has the given id (votes
  with the keys 0 to 3 in this order, as \<open>send_poll\<close> creates them, and four options),
  it archives a result whose winner index has the maximal vote count, and every lower
  index has strictly fewer votes: ties go to the lowest index. For the votes
  \<open>{0:3, 1:3, 2:1, 3:0}\<close> the winner index is 0.
\<close>

theorem close_poll_winner:
  assumes "active_of d (str_int chat_id) = Some ap" and "poll_id ap = pid"
      and "map fst (votes ap) = [KInt 0, KInt 1, KInt 2, KInt 3]"
      and "length (options ap) = 4"
  shows "\<exists>r. polls_of (fst (close_poll d chat_id pid flag_stop inp)) (str_int chat_id)
               = polls_of d (str_int chat_id) @ [r]
            \<and> winner_index r \<in> {0..3}
            \<and> (\<forall>j\<in>{0..3}. vote_count (votes ap) j \<le> vote_count (votes ap) (winner_index r))
            \<and> (\<forall>j\<in>{0..<winner_index r}.
                   vote_count (votes ap) j < vote_count (votes ap) (winner_index r))
            \<and> (votes ap = [(KInt 0, 3), (KInt 1, 3), (KInt 2, 1), (KInt 3, 0)]
                 \<longrightarrow> winner_index r = 0)"
proof -
  from assms obtain chat wi where
    c: "map_of d (str_int chat_id) = Some chat"
    and m: "py_max_key (votes ap) = Some (KInt wi)" and r: "wi \<in> {0..3}"
    and le: "\<forall>j\<in>{0..3}. vote_count (votes ap) j \<le> vote_count (votes ap) wi"
    and lt: "\<forall>j\<in>{0..<wi}. vote_count (votes ap) j < vote_count (votes ap) wi"
    and e: "close_poll d chat_id pid flag_stop inp =
     (let r = \<lparr>poll_id = pid, options = options ap, votes = votes ap,
                winner = options ap ! nat wi, winner_index = wi, closed_at = closed_iso inp\<rparr>;
          d2 = AList.update (str_int chat_id) (chat\<lparr>polls := polls chat @ [r]\<rparr>) d;
          d3 = AList.update (str_int chat_id)
                 (chat\<lparr>polls := polls chat @ [r], active_poll := None\<rparr>) d
      in (d3,
          [StopPoll chat_id (message_id ap)] @ (if stop_ok inp then [] else [Log ERROR])
          @ [Save d2, Save d3, SendMessage chat_id (options ap ! nat wi) (vote_count (votes ap) wi)]
          @ (if \<not> announce_ok inp then [Log ERROR]
             else if flag_stop then [Log INFO] else [Log INFO, Sleep 5]),
          announce_ok inp \<and> \<not> flag_stop))"
    by (rule close_poll_wf)
  define r where "r = \<lparr>poll_id = pid, options = options ap, votes = votes ap,
                winner = options ap ! nat wi, winner_index = wi, closed_at = closed_iso inp\<rparr>"
  have wr: "winner_index r = wi" by (simp add: r_def)
  have "polls_of (fst (close_poll d chat_id pid flag_stop inp)) (str_int chat_id)
        = polls_of d (str_int chat_id) @ [r]"
    by (simp add: e Let_def polls_of_def map_of_update_same c r_def)
  moreover have "votes ap = [(KInt 0, 3), (KInt 1, 3), (KInt 2, 1), (KInt 3, 0)] \<longrightarrow> wi = 0"
    using m by (auto simp: py_max_key_def)
  ultimately show ?thesis using r le lt unfolding wr[symmetric] by blast
qed

text \<open>
  Claim C5. After \<open>close_poll\<close> on a chat whose active poll has the given id (votes with
  the keys 0 to 3, four options, none empty), the history of the chat is the former
  history followed by the winning option (one line longer, the winning line last), the
  archived polls are the former ones followed by a result holding the options, the
  final votes, the winner index, the winning line and the closing time, and the chat has
  no active poll. This holds whether or not the calls to the gateway succeed.
\<close>

theorem close_poll_commits:
  assumes "active_of d (str_int chat_id) = Some ap" and "poll_id ap = pid"
      and "map fst (votes ap) = [KInt 0, KInt 1, KInt 2, KInt 3]"
      and "length (options ap) = 4" and ne: "[] \<notin> set (options ap)"
  shows "\<exists>wi. py_max_key (votes ap) = Some (KInt wi)
          \<and> history_of (fst (close_poll d chat_id pid flag_stop inp)) (str_int chat_id)
              = history_of d (str_int chat_id) @ [options ap ! nat wi]
          \<and> length (history_of (fst (close_poll d chat_id pid flag_stop inp)) (str_int chat_id))
              = length (history_of d (str_int chat_id)) + 1
          \<and> last (history_of (fst (close_poll d chat_id pid flag_stop inp)) (str_int chat_id))
              = options ap ! nat wi
          \<and> polls_of (fst (close_poll d chat_id pid flag_stop inp)) (str_int chat_id)
              = polls_of d (str_int chat_id)
                @ [\<lparr>poll_id = pid, options = options ap, votes = votes ap,
                    winner = options ap ! nat wi, winner_index = wi,
                    closed_at = closed_iso inp\<rparr>]
          \<and> active_of (fst (close_poll d chat_id pid flag_stop inp)) (str_int chat_id) = None"
proof -
  from assms(1-4) obtain chat wi where
    c: "map_of d (str_int chat_id) = Some chat"
    and m: "py_max_key (votes ap) = Some (KInt wi)" and r: "wi \<in> {0..3}"
    and e: "close_poll d chat_id pid flag_stop inp =
     (let r = \<lparr>poll_id = pid, options = options ap, votes = votes ap,
                winner = options ap ! nat wi, winner_index = wi, closed_at = closed_iso inp\<rparr>;
          d2 = AList.update (str_int chat_id) (chat\<lparr>polls := polls chat @ [r]\<rparr>) d;
          d3 = AList.update (str_int chat_id)
                 (chat\<lparr>polls := polls chat @ [r], active_poll := None\<rparr>) d
      in (d3,
          [StopPoll chat_id (message_id ap)] @ (if stop_ok inp then [] else [Log ERROR])
          @ [Save d2, Save d3, SendMessage chat_id (options ap ! nat wi) (vote_count (votes ap) wi)]
          @ (if \<not> announce_ok inp then [Log ERROR]
             else if flag_stop then [Log INFO] else [Log INFO, Sleep 5]),
          announce_ok inp \<and> \<not> flag_stop))"
    by (rule close_poll_wf)
  have "nat wi < length (options ap)" using r assms(4) by auto
  then have w: "options ap ! nat wi \<noteq> []" using ne by (metis nth_mem)
  have h: "history_of (fst (close_poll d chat_id pid flag_stop inp)) (str_int chat_id)
              = history_of d (str_int chat_id) @ [options ap ! nat wi]"
    using w by (simp add: e Let_def history_of_present[OF c]
                  history_of_present[OF map_of_update_same])
  have "polls_of (fst (close_poll d chat_id pid flag_stop inp)) (str_int chat_id)
              = polls_of d (str_int chat_id)
                @ [\<lparr>poll_id = pid, options = options ap, votes = votes ap,
                    winner = options ap ! nat wi, winner_index = wi,
                    closed_at = closed_iso inp\<rparr>]"
    by (simp add: e Let_def polls_of_def map_of_update_same c)
  moreover have "active_of (fst (close_poll d chat_id pid flag_stop inp)) (str_int chat_id) = None"
    by (simp add: e Let_def active_of_def map_of_update_same)
  ultimately show ?thesis using m h by simp
qed

lemma str_int_7: "str_int 7 = ''7''"
  by (simp add: str_int_def str_nat.simps digit_char_def)

lemma demo_active: "active_of demo_data (str_int 7) = Some demo_poll"
  by (simp add: str_int_7 demo_data_def active_of_def)

lemma demo_poll_shape:
  "poll_id demo_poll = ''p2''" "map fst (votes demo_poll) = [KInt 0, KInt 1, KInt 2, KInt 3]"
  "length (options demo_poll) = 4" "[] \<notin> set (options demo_poll)"
  by (simp_all add: demo_poll_def)

theorem close_poll_winner_witness:
  "active_of demo_data (str_int 7) = Some demo_poll \<and> poll_id demo_poll = ''p2''
   \<and> map fst (votes demo_poll) = [KInt 0, KInt 1, KInt 2, KInt 3]
   \<and> length (options demo_poll) = 4
   \<and> (0::int) \<in> {0..3}
   \<and> (\<exists>r. polls_of (fst (close_poll demo_data 7 ''p2'' False demo_close)) (str_int 7)
              = polls_of demo_data (str_int 7) @ [r] \<and> winner_index r = 0)"
proof -
  have v: "votes demo_poll = [(KInt 0, 3), (KInt 1, 3), (KInt 2, 1), (KInt 3, 0)]"
    by (simp add: demo_poll_def)
  from close_poll_winner[OF demo_active demo_poll_shape(1,2,3), of False demo_close] v
  have "\<exists>r. polls_of (fst (close_poll demo_data 7 ''p2'' False demo_close)) (str_int 7)
              = polls_of demo_data (str_int 7) @ [r] \<and> winner_index r = 0"
    by blast
  then show ?thesis using demo_active demo_poll_shape by simp
qed

theorem close_poll_commits_witness:
  "active_of demo_data (str_int 7) = Some demo_poll \<and> poll_id demo_poll = ''p2''
   \<and> map fst (votes demo_poll) = [KInt 0, KInt 1, KInt 2, KInt 3]
   \<and> length (options demo_poll) = 4 \<and> [] \<notin> set (options demo_poll)
   \<and> history_of demo_data (str_int 7) = [''x = 1'']
   \<and> history_of (fst (close_poll demo_data 7 ''p2'' False demo_close)) (str_int 7)
       = [''x = 1'', ''y = 2'']
   \<and> active_of (fst (close_poll demo_data 7 ''p2'' False demo_close)) (str_int 7) = None"
proof -
  have m: "py_max_key (votes demo_poll) = Some (KInt 0)"
    by (simp add: demo_poll_def py_max_key_def)
  have h: "history_of demo_data (str_int 7) = [''x = 1'']"
    by (simp add: str_int_7 demo_data_def demo_result_def history_of_def get_code_history_def
          get_chat_def)
  have o: "options demo_poll ! nat 0 = ''y = 2''" by (simp add: demo_poll_def)
  from close_poll_commits[OF demo_active demo_poll_shape, of False demo_close] m
  have "history_of (fst (close_poll demo_data 7 ''p2'' False demo_close)) (str_int 7)
              = history_of demo_data (str_int 7) @ [options demo_poll ! nat 0]
        \<and> active_of (fst (close_poll demo_data 7 ''p2'' False demo_close)) (str_int 7) = None"
    by auto
  then show ?thesis using demo_active demo_poll_shape h o by simp
qed


section \<open>Closing twice\<close>

lemma close_poll_stale:
  assumes "map_of d (str_int chat_id) = Some chat"
      and "\<forall>ap. active_poll chat = Some ap \<longrightarrow> poll_id ap \<noteq> pid"
  shows "close_poll d chat_id pid flag_stop inp = (d, [Log WARNING], False)"
  using assms by (cases "active_poll chat") (simp_all add: close_poll_def get_chat_present Let_def)

text \<open>
  Claim C4. A close for a poll id that is not the id of the chat's active poll (the chat
  has none, or has another one) changes nothing: the store is the same, nothing is
  saved, the gateway is not called; the only trace is one warning in the log. So when
  close runs twice for the same poll, the second run is such a close: after both there
  is one more archived result, one more history line, and one announcement.
\<close>

theorem close_poll_idempotent:
  "(map_of d (str_int chat_id) = Some chat
    \<and> (\<forall>ap. active_poll chat = Some ap \<longrightarrow> poll_id ap \<noteq> pid)
    \<longrightarrow> close_poll d chat_id pid flag_stop inp = (d, [Log WARNING], False))
   \<and> (active_of d (str_int chat_id) = Some ap \<and> poll_id ap = pid
      \<and> map fst (votes ap) = [KInt 0, KInt 1, KInt 2, KInt 3]
      \<and> length (options ap) = 4 \<and> [] \<notin> set (options ap)
      \<longrightarrow> (case close_poll d chat_id pid flag_stop inp of (d1, e1, b1) \<Rightarrow>
           case close_poll d1 chat_id pid flag_stop' inp' of (d2, e2, b2) \<Rightarrow>
             d2 = d1 \<and> e2 = [Log WARNING] \<and> \<not> b2
             \<and> length (polls_of d2 (str_int chat_id)) = length (polls_of d (str_int chat_id)) + 1
             \<and> length (history_of d2 (str_int chat_id))
                 = length (history_of d (str_int chat_id)) + 1
             \<and> length (filter is_send_message (e1 @ e2)) = 1))"
proof (intro conjI impI)
  assume "map_of d (str_int chat_id) = Some chat
    \<and> (\<forall>ap. active_poll chat = Some ap \<longrightarrow> poll_id ap \<noteq> pid)"
  then show "close_poll d chat_id pid flag_stop inp = (d, [Log WARNING], False)"
    by (simp add: close_poll_stale)
next
  assume h: "active_of d (str_int chat_id) = Some ap \<and> poll_id ap = pid
      \<and> map fst (votes ap) = [KInt 0, KInt 1, KInt 2, KInt 3]
      \<and> length (options ap) = 4 \<and> [] \<notin> set (options ap)"
  then obtain chat wi where
    c: "map_of d (str_int chat_id) = Some chat"
    and r: "wi \<in> {0..3}"
    and e: "close_poll d chat_id pid flag_stop inp =
     (let r = \<lparr>poll_id = pid, options = options ap, votes = votes ap,
                winner = options ap ! nat wi, winner_index = wi, closed_at = closed_iso inp\<rparr>;
          d2 = AList.update (str_int chat_id) (chat\<lparr>polls := polls chat @ [r]\<rparr>) d;
          d3 = AList.update (str_int chat_id)
                 (chat\<lparr>polls := polls chat @ [r], active_poll := None\<rparr>) d
      in (d3,
          [StopPoll chat_id (message_id ap)] @ (if stop_ok inp then [] else [Log ERROR])
          @ [Save d2, Save d3, SendMessage chat_id (options ap ! nat wi) (vote_count (votes ap) wi)]
          @ (if \<not> announce_ok inp then [Log ERROR]
             else if flag_stop then [Log INFO] else [Log INFO, Sleep 5]),
          announce_ok inp \<and> \<not> flag_stop))"
    by (metis close_poll_wf)
  obtain d1 e1 b1 where c1: "close_poll d chat_id pid flag_stop inp = (d1, e1, b1)"
    by (metis prod_cases3)
  have "nat wi < length (options ap)" using r h by auto
  then have w: "options ap ! nat wi \<noteq> []" using h by (metis nth_mem)
  have m1: "map_of d1 (str_int chat_id)
            = Some (chat\<lparr>polls := polls chat @ [\<lparr>poll_id = pid, options = options ap, votes = votes ap,
                winner = options ap ! nat wi, winner_index = wi, closed_at = closed_iso inp\<rparr>],
                active_poll := None\<rparr>)"
    using c1 unfolding e by (auto simp: Let_def map_of_update_same)
  have s: "close_poll d1 chat_id pid flag_stop' inp' = (d1, [Log WARNING], False)"
    by (rule close_poll_stale[OF m1]) simp
  have p: "length (polls_of d1 (str_int chat_id)) = length (polls_of d (str_int chat_id)) + 1"
    by (simp add: polls_of_present[OF m1] polls_of_present[OF c])
  have hi: "length (history_of d1 (str_int chat_id)) = length (history_of d (str_int chat_id)) + 1"
    using w by (simp add: history_of_present[OF m1] history_of_present[OF c])
  have f: "length (filter is_send_message (e1 @ [Log WARNING])) = 1"
    using c1 unfolding e by (auto simp: Let_def)
  show "case close_poll d chat_id pid flag_stop inp of (d1, e1, b1) \<Rightarrow>
           case close_poll d1 chat_id pid flag_stop' inp' of (d2, e2, b2) \<Rightarrow>
             d2 = d1 \<and> e2 = [Log WARNING] \<and> \<not> b2
             \<and> length (polls_of d2 (str_int chat_id)) = length (polls_of d (str_int chat_id)) + 1
             \<and> length (history_of d2 (str_int chat_id))
                 = length (history_of d (str_int chat_id)) + 1
             \<and> length (filter is_send_message (e1 @ e2)) = 1"
    unfolding c1 using s p hi f by simp
qed

theorem close_poll_idempotent_witness:
  "map_of [(''7'', \<lparr>polls = [demo_result], active_poll = None\<rparr>)] (str_int 7)
     = Some \<lparr>polls = [demo_result], active_poll = None\<rparr>
   \<and> close_poll [(''7'', \<lparr>polls = [demo_result], active_poll = None\<rparr>)] 7 ''p2'' False demo_close
     = ([(''7'', \<lparr>polls = [demo_result], active_poll = None\<rparr>)], [Log WARNING], False)
   \<and> active_of demo_data (str_int 7) = Some demo_poll \<and> poll_id demo_poll = ''p2''
   \<and> map fst (votes demo_poll) = [KInt 0, KInt 1, KInt 2, KInt 3]
   \<and> length (options demo_poll) = 4 \<and> [] \<notin> set (options demo_poll)
   \<and> (case close_poll demo_data 7 ''p2'' False demo_close of (d1, e1, b1) \<Rightarrow>
        case close_poll d1 7 ''p2'' False demo_close of (d2, e2, b2) \<Rightarrow>
          d2 = d1 \<and> e2 = [Log WARNING]
          \<and> length (polls_of d2 (str_int 7)) = length (polls_of demo_data (str_int 7)) + 1
          \<and> length (filter is_send_message (e1 @ e2)) = 1)"
proof -
  let ?X = "[(''7'', \<lparr>polls = [demo_result], active_poll = None\<rparr>)]"
  have a: "map_of ?X (str_int 7) = Some \<lparr>polls = [demo_result], active_poll = None\<rparr>"
    by (simp add: str_int_7)
  have b: "\<forall>ap. active_poll \<lparr>polls = [demo_result], active_poll = None\<rparr> = Some ap
              \<longrightarrow> poll_id ap \<noteq> ''p2''" by simp
  note t1 = close_poll_idempotent[of ?X 7 "\<lparr>polls = [demo_result], active_poll = None\<rparr>"
               "''p2''" False demo_close, THEN conjunct1, rule_format, OF conjI[OF a b]]
  note h = demo_active demo_poll_shape
  have hyp: "active_of demo_data (str_int 7) = Some demo_poll \<and> poll_id demo_poll = ''p2''
      \<and> map fst (votes demo_poll) = [KInt 0, KInt 1, KInt 2, KInt 3]
      \<and> length (options demo_poll) = 4 \<and> [] \<notin> set (options demo_poll)"
    using h by simp
  note t2 = close_poll_idempotent[of demo_data 7 _ "''p2''" False demo_close demo_poll False demo_close,
               THEN conjunct2, rule_format, OF hyp]
  have "case close_poll demo_data 7 ''p2'' False demo_close of (d1, e1, b1) \<Rightarrow>
        case close_poll d1 7 ''p2'' False demo_close of (d2, e2, b2) \<Rightarrow>
          d2 = d1 \<and> e2 = [Log WARNING]
          \<and> length (polls_of d2 (str_int 7)) = length (polls_of demo_data (str_int 7)) + 1
          \<and> length (filter is_send_message (e1 @ e2)) = 1"
    using t2 by (auto split: prod.splits)
  then show ?thesis using a t1 hyp by simp
qed

lemma get_chat_cases:
  obtains (present) chat where "map_of d c = Some chat" "get_chat d c = (d, [], chat)"
  | (absent) "map_of d c = None"
      "get_chat d c = (AList.update c empty_chat d, [Save (AList.update c empty_chat d)], empty_chat)"
  by (cases "map_of d c") (auto simp: get_chat_present get_chat_absent)


section \<open>What follows a close\<close>

lemma demo_close_poll:
  "close_poll demo_data 7 ''p2'' False (demo_close\<lparr>announce_ok := ok\<rparr>) =
     (demo_closed,
      [StopPoll 7 11, Save demo_archived, Save demo_closed, SendMessage 7 ''y = 2'' 3]
      @ (if ok then [Log INFO, Sleep 5] else [Log ERROR]),
      ok)"
proof -
  have c: "map_of demo_data (str_int 7) = Some \<lparr>polls = [demo_result], active_poll = Some demo_poll\<rparr>"
    by (simp add: demo_data_def str_int_7)
  have a: "active_poll \<lparr>polls = [demo_result], active_poll = Some demo_poll\<rparr> = Some demo_poll"
    by simp
  have m: "py_max_key (votes demo_poll) = Some (KInt 0)"
    by (simp add: demo_poll_def py_max_key_def)
  have i: "py_index (options demo_poll) 0 = Some ''y = 2''"
    by (simp add: demo_poll_def py_index_def)
  have v: "map_of (votes demo_poll) (KInt 0) = Some 3" by (simp add: demo_poll_def)
  show ?thesis
    unfolding close_poll_success[OF c a demo_poll_shape(1) m i v]
    by (simp add: Let_def demo_close_def demo_data_def str_int_7 demo_archived_def
          demo_closed_def demo_poll_def)
qed

text \<open>
  Claim C9. The timer closes the open poll of chat 7 (no stop flag) and
  \<open>bot.send_message\<close> raises at line 608. The poll is archived and the chat is left
  without an active poll, but the exception goes to the \<open>except\<close> clause of line 622:
  there is no sleep, nothing is checked again and no poll is opened, so the chain
  stops. When the message goes out, the same close ends in the 5 second sleep with
  the second half of \<open>close_poll\<close> to come.
\<close>

theorem close_poll_announce_fails:
  "close_poll demo_data 7 ''p2'' False (demo_close\<lparr>announce_ok := False\<rparr>)
     = (demo_closed,
        [StopPoll 7 11, Save demo_archived, Save demo_closed, SendMessage 7 ''y = 2'' 3,
         Log ERROR],
        False)
   \<and> active_of demo_closed ''7'' = None
   \<and> close_poll demo_data 7 ''p2'' False (demo_close\<lparr>announce_ok := True\<rparr>)
     = (demo_closed,
        [StopPoll 7 11, Save demo_archived, Save demo_closed, SendMessage 7 ''y = 2'' 3,
         Log INFO, Sleep 5],
        True)
   \<and> close_poll_recheck demo_closed 7 = (demo_closed, [], True)"
proof -
  have a: "active_of demo_closed ''7'' = None" by (simp add: active_of_def demo_closed_def)
  have r: "close_poll_recheck demo_closed 7 = (demo_closed, [], True)"
    by (simp add: close_poll_recheck_def get_chat_def str_int_7 demo_closed_def)
  show ?thesis using demo_close_poll[of False] demo_close_poll[of True] a r by simp
qed

section \<open>The history, and votes\<close>

lemma history_of_polls_of:
  "history_of d c = map winner (filter (\<lambda>r. winner r \<noteq> []) (polls_of d c))"
proof (rule get_chat_cases[of d c])
  fix chat assume "map_of d c = Some chat" "get_chat d c = (d, [], chat)"
  then show ?thesis by (simp add: history_of_present polls_of_present)
next
  assume "map_of d c = None"
    "get_chat d c = (AList.update c empty_chat d, [Save (AList.update c empty_chat d)], empty_chat)"
  then show ?thesis
    by (simp add: history_of_def get_code_history_def polls_of_def empty_chat_def)
qed

lemma polls_of_clear_chat: "polls_of (fst (clear_chat d c)) c = []"
  by (simp add: clear_chat_def Let_def polls_of_def map_of_update_same empty_chat_def)

lemma polls_of_add_poll: "polls_of (fst (add_poll d c r)) c = polls_of d c @ [r]"
  by (rule get_chat_cases[of d c])
     (simp_all add: add_poll_def Let_def polls_of_def map_of_update_same empty_chat_def)

text \<open>
  Claim C10. The line history of a chat is not stored: every read computes it from the
  archived polls, as their \<open>winner\<close> fields in order, leaving out the empty ones. So
  after \<open>clear_chat\<close>, which empties the archived polls, the history is empty; archiving
  a result with an empty winner leaves the history as it was, and archiving one with a
  non-empty winner adds that line at the end.
\<close>

theorem history_is_derived:
  "history_of d c = map winner (filter (\<lambda>r. winner r \<noteq> []) (polls_of d c))
   \<and> polls_of (fst (clear_chat d c)) c = []
   \<and> history_of (fst (clear_chat d c)) c = []
   \<and> polls_of (fst (add_poll d c r)) c = polls_of d c @ [r]
   \<and> (winner r = [] \<longrightarrow> history_of (fst (add_poll d c r)) c = history_of d c)
   \<and> (winner r \<noteq> [] \<longrightarrow> history_of (fst (add_poll d c r)) c = history_of d c @ [winner r])"
  by (simp add: history_of_polls_of polls_of_clear_chat polls_of_add_poll)

theorem history_is_derived_witness:
  "history_of demo_data ''7'' = [''x = 1'']
   \<and> history_of (fst (clear_chat demo_data ''7'')) ''7'' = []
   \<and> winner (demo_result\<lparr>winner := []\<rparr>) = []
   \<and> history_of (fst (add_poll demo_data ''7'' (demo_result\<lparr>winner := []\<rparr>))) ''7'' = [''x = 1'']
   \<and> winner (demo_result\<lparr>winner := ''y = 2''\<rparr>) \<noteq> []
   \<and> history_of (fst (add_poll demo_data ''7'' (demo_result\<lparr>winner := ''y = 2''\<rparr>))) ''7''
       = [''x = 1'', ''y = 2'']"
proof -
  have p: "polls_of demo_data ''7'' = [demo_result]" by (simp add: polls_of_def demo_data_def)
  note t1 = history_is_derived[of demo_data "''7''" "demo_result\<lparr>winner := []\<rparr>"]
  note t2 = history_is_derived[of demo_data "''7''" "demo_result\<lparr>winner := ''y = 2''\<rparr>"]
  have h: "history_of demo_data ''7'' = [''x = 1'']"
    using t1 by (simp add: p demo_result_def)
  have c: "history_of (fst (clear_chat demo_data ''7'')) ''7'' = []" using t1 by simp
  have e: "winner (demo_result\<lparr>winner := []\<rparr>) = []" by simp
  have a1: "history_of (fst (add_poll demo_data ''7'' (demo_result\<lparr>winner := []\<rparr>))) ''7''
            = [''x = 1'']"
    using t1 e h by simp
  have n: "winner (demo_result\<lparr>winner := ''y = 2''\<rparr>) \<noteq> []" by simp
  have a2: "history_of (fst (add_poll demo_data ''7'' (demo_result\<lparr>winner := ''y = 2''\<rparr>))) ''7''
       = [''x = 1'', ''y = 2'']"
    using t2 n h by simp
  show ?thesis by (rule conjI[OF h conjI[OF c conjI[OF e conjI[OF a1 conjI[OF n a2]]]]])
qed

lemma find_poll_none:
  "\<forall>(c, chat)\<in>set d. \<forall>ap. active_poll chat = Some ap \<longrightarrow> poll_id ap \<noteq> pid \<Longrightarrow>
   find_poll d pid option_ids = None"
  by (induction d) (auto split: option.splits)

text \<open>
  Claim C7. A vote event whose poll id is the id of no chat's active poll (an id never
  seen, or the id of a poll that is closed) does nothing: \<open>poll_answer_handler\<close> returns
  the store as it was, saves nothing, logs nothing, and takes no error path.
\<close>

theorem poll_answer_unknown_id:
  assumes "\<forall>(c, chat)\<in>set d. \<forall>ap. active_poll chat = Some ap \<longrightarrow> poll_id ap \<noteq> pid"
  shows "poll_answer_handler d pid option_ids = (d, [])"
  using find_poll_none[OF assms] by (simp add: poll_answer_handler_def)

theorem poll_answer_unknown_id_witness:
  "(''7'', \<lparr>polls = [demo_result], active_poll = Some demo_poll\<rparr>) \<in> set demo_two
   \<and> (''8'', \<lparr>polls = [], active_poll = Some demo_other\<rparr>) \<in> set demo_two
   \<and> poll_id demo_poll \<noteq> ''p1'' \<and> poll_id demo_other \<noteq> ''p1''
   \<and> poll_answer_handler demo_two ''p1'' [0] = (demo_two, [])"
proof -
  have h: "\<forall>(c, chat)\<in>set demo_two. \<forall>ap. active_poll chat = Some ap \<longrightarrow> poll_id ap \<noteq> ''p1''"
    by (simp add: demo_two_def demo_data_def demo_poll_def demo_other_def)
  have m: "(''7'', \<lparr>polls = [demo_result], active_poll = Some demo_poll\<rparr>) \<in> set demo_two"
    by (simp add: demo_two_def demo_data_def)
  have m': "(''8'', \<lparr>polls = [], active_poll = Some demo_other\<rparr>) \<in> set demo_two"
    by (simp add: demo_two_def)
  have n: "poll_id demo_poll \<noteq> ''p1''" by (simp add: demo_poll_def)
  have n': "poll_id demo_other \<noteq> ''p1''" by (simp add: demo_other_def)
  note t = poll_answer_unknown_id[OF h, of "[0]"]
  show ?thesis by (rule conjI[OF m conjI[OF m' conjI[OF n conjI[OF n' t]]]])
qed

lemma map_entry_keys: "map fst (AList.map_entry k f xs) = map fst xs"
  by (induction xs) auto

lemma count_votes_keys: "map fst (count_votes vs option_ids) = map fst vs"
  by (induction option_ids arbitrary: vs) (auto simp: map_entry_keys)

lemma vote_count_map_entry:
  "KInt o_id \<in> fst ` set vs \<Longrightarrow>
   vote_count (AList.map_entry (KInt o_id) (\<lambda>n. n + 1) vs) i
   = vote_count vs i + (if i = o_id then 1 else 0)"
  by (auto simp: vote_count_def map_of_map_entry split: option.splits
           dest: weak_map_of_SomeI simp: map_of_eq_None_iff)

lemma count_votes_count:
  "KInt i \<in> fst ` set vs \<Longrightarrow>
   vote_count (count_votes vs option_ids) i = vote_count vs i + int (count_list option_ids i)"
proof (induction option_ids arbitrary: vs)
  case Nil
  then show ?case by simp
next
  case (Cons o_id option_ids)
  show ?case
  proof (cases "KInt o_id \<in> fst ` set vs")
    case True
    have "KInt i \<in> fst ` set (AList.map_entry (KInt o_id) (\<lambda>n. n + 1) vs)"
      using Cons.prems by (simp add: dom_map_entry)
    from Cons.IH[OF this] True show ?thesis
      by (simp add: vote_count_map_entry)
  next
    case False
    with Cons.prems have "i \<noteq> o_id" by auto
    with False Cons.IH[OF Cons.prems] show ?thesis by simp
  qed
qed

lemma map_entry_nonneg:
  "\<forall>n\<in>snd ` set vs. (0::int) \<le> n \<Longrightarrow>
   \<forall>n\<in>snd ` set (AList.map_entry k (\<lambda>n. n + 1) vs). 0 \<le> n"
  by (induction vs) auto

lemma count_votes_nonneg:
  "\<forall>n\<in>snd ` set vs. 0 \<le> n \<Longrightarrow> \<forall>n\<in>snd ` set (count_votes vs option_ids). 0 \<le> n"
proof (induction option_ids arbitrary: vs)
  case Nil
  then show ?case by simp
next
  case (Cons o_id option_ids)
  show ?case
    using Cons.IH[OF map_entry_nonneg[OF Cons.prems, of "KInt o_id"]] Cons.IH[OF Cons.prems]
    by simp
qed

lemma count_list_distinct:
  "distinct xs \<Longrightarrow> count_list xs x = (if x \<in> set xs then 1 else 0)"
  by (induction xs) auto

lemma find_poll_hit:
  assumes "map_of d c = Some chat" "active_poll chat = Some ap" "poll_id ap = pid"
      "\<forall>(c', chat')\<in>set d. c' \<noteq> c \<longrightarrow> (\<forall>p. active_poll chat' = Some p \<longrightarrow> poll_id p \<noteq> pid)"
  shows "find_poll d pid option_ids =
         Some (AList.update c (chat\<lparr>active_poll :=
                  Some (ap\<lparr>votes := count_votes (votes ap) option_ids\<rparr>)\<rparr>) d)"
  using assms
proof (induction d)
  case Nil
  then show ?case by simp
next
  case (Cons x d)
  obtain k ch where x: "x = (k, ch)" by (cases x)
  show ?case
  proof (cases "k = c")
    case True
    with Cons.prems x have "ch = chat" by simp
    with True x Cons.prems show ?thesis by simp
  next
    case False
    with Cons.prems x have n: "\<forall>p. active_poll ch = Some p \<longrightarrow> poll_id p \<noteq> pid" by auto
    have ih: "find_poll d pid option_ids =
         Some (AList.update c (chat\<lparr>active_poll :=
                  Some (ap\<lparr>votes := count_votes (votes ap) option_ids\<rparr>)\<rparr>) d)"
      using Cons.prems False x by (intro Cons.IH) auto
    show ?thesis using False n ih x by (auto split: option.splits)
  qed
qed

text \<open>
  Votes on a poll whose votes dict has the \<open>int\<close> keys 0 to 3, as \<open>send_poll\<close>
  creates it: a vote event with the id of that poll (and of no other chat's poll)
  changes nothing but its counts; the keys stay, the count of each option rises by the
  number of times the event names it, an index outside 0 to 3 is ignored, no count
  falls and all stay non-negative.
\<close>

lemma poll_answer_counts_int_keys:
  assumes "map_of d c = Some chat" and "active_poll chat = Some ap" and "poll_id ap = pid"
      and "\<forall>(c', chat')\<in>set d. c' \<noteq> c \<longrightarrow> (\<forall>p. active_poll chat' = Some p \<longrightarrow> poll_id p \<noteq> pid)"
      and "map fst (votes ap) = [KInt 0, KInt 1, KInt 2, KInt 3]"
      and "\<forall>n\<in>snd ` set (votes ap). 0 \<le> n"
  shows "\<exists>vs'. fst (poll_answer_handler d pid option_ids)
               = AList.update c (chat\<lparr>active_poll := Some (ap\<lparr>votes := vs'\<rparr>)\<rparr>) d
          \<and> map fst vs' = [KInt 0, KInt 1, KInt 2, KInt 3]
          \<and> (\<forall>i\<in>{0..3}. vote_count vs' i
                 = vote_count (votes ap) i + int (count_list option_ids i))
          \<and> (distinct option_ids \<longrightarrow>
               (\<forall>i\<in>{0..3}. vote_count vs' i
                  = vote_count (votes ap) i + (if i \<in> set option_ids then 1 else 0)))
          \<and> (\<forall>i\<in>{0..3}. vote_count (votes ap) i \<le> vote_count vs' i)
          \<and> (\<forall>n\<in>snd ` set vs'. 0 \<le> n)"
proof -
  define vs' where "vs' = count_votes (votes ap) option_ids"
  have f: "fst (poll_answer_handler d pid option_ids)
               = AList.update c (chat\<lparr>active_poll := Some (ap\<lparr>votes := vs'\<rparr>)\<rparr>) d"
    using find_poll_hit[OF assms(1-4)] by (simp add: poll_answer_handler_def vs'_def)
  have k: "map fst vs' = [KInt 0, KInt 1, KInt 2, KInt 3]"
    using assms(5) by (simp add: vs'_def count_votes_keys)
  have dom: "\<And>i. i \<in> {0..3} \<Longrightarrow> KInt i \<in> fst ` set (votes ap)"
  proof -
    fix i :: int assume "i \<in> {0..3}"
    then have "i = 0 \<or> i = 1 \<or> i = 2 \<or> i = 3" by auto
    then have "KInt i \<in> set (map fst (votes ap))" unfolding assms(5) by auto
    then show "KInt i \<in> fst ` set (votes ap)" by simp
  qed
  have cnt: "\<forall>i\<in>{0..3}. vote_count vs' i = vote_count (votes ap) i + int (count_list option_ids i)"
    using dom by (simp add: vs'_def count_votes_count)
  have one: "distinct option_ids \<longrightarrow>
               (\<forall>i\<in>{0..3}. vote_count vs' i
                  = vote_count (votes ap) i + (if i \<in> set option_ids then 1 else 0))"
  proof (intro impI ballI)
    fix i :: int assume di: "distinct option_ids" and i: "i \<in> {0..3}"
    have "count_list option_ids i = (if i \<in> set option_ids then 1 else 0)"
      using di by (rule count_list_distinct)
    with cnt i show "vote_count vs' i
                  = vote_count (votes ap) i + (if i \<in> set option_ids then 1 else 0)"
      by simp
  qed
  have mono: "\<forall>i\<in>{0..3}. vote_count (votes ap) i \<le> vote_count vs' i"
    using cnt by simp
  have nn: "\<forall>n\<in>snd ` set vs'. 0 \<le> n"
    unfolding vs'_def using assms(6) by (rule count_votes_nonneg)
  show ?thesis
    by (rule exI[of _ vs'], rule conjI[OF f conjI[OF k conjI[OF cnt conjI[OF one conjI[OF mono nn]]]]])
qed

section \<open>Saving and loading\<close>

lemma str_int_small:
  "str_int 0 = ''0''" "str_int 1 = ''1''" "str_int 2 = ''2''" "str_int 3 = ''3''"
  by (simp_all add: str_int_def str_nat.simps digit_char_def)

lemma votes_roundtrip:
  "votes_load (votes_json [(KInt 0, a), (KInt 1, b), (KInt 2, c), (KInt 3, e)])
   = Some (reloaded_votes a b c e)"
  by (simp add: votes_load_def votes_json_def str_int_small py_dict_def reloaded_votes_def)

lemma poll_data_roundtrip:
  "poll_data_load (poll_data_json demo_poll)
   = Some (demo_poll\<lparr>votes := reloaded_votes 3 3 1 0\<rparr>)"
  by (simp add: poll_data_load_def poll_data_json_def demo_poll_def py_dict_def votes_roundtrip)

lemma poll_result_roundtrip:
  "poll_result_load (poll_result_json demo_result)
   = Some (demo_result\<lparr>votes := reloaded_votes 2 0 1 0\<rparr>)"
  by (simp add: poll_result_load_def poll_result_json_def demo_result_def py_dict_def
        votes_roundtrip)

lemma chat_roundtrip:
  "chat_load (chat_json \<lparr>polls = [demo_result], active_poll = Some demo_poll\<rparr>)
   = Some \<lparr>polls = [demo_result\<lparr>votes := reloaded_votes 2 0 1 0\<rparr>],
           active_poll = Some (demo_poll\<lparr>votes := reloaded_votes 3 3 1 0\<rparr>)\<rparr>"
proof -
  have a: "(case poll_data_json demo_poll of JNull \<Rightarrow> Some None
              | _ \<Rightarrow> map_option Some (poll_data_load (poll_data_json demo_poll)))
           = Some (Some (demo_poll\<lparr>votes := reloaded_votes 3 3 1 0\<rparr>))"
    by (simp only: poll_data_roundtrip option.map) (simp add: poll_data_json_def)
  show ?thesis
    by (simp add: chat_load_def chat_json_def py_dict_def poll_result_roundtrip a
             del: map_option_eq_Some)
qed

lemma demo_roundtrip: "load (Some (save demo_data)) = Some demo_reloaded"
  by (simp add: load_def save_def demo_data_def demo_reloaded_def py_dict_def chat_roundtrip)

lemma demo_reloaded_differs: "demo_reloaded \<noteq> demo_data"
  by (simp add: demo_reloaded_def demo_data_def demo_poll_def reloaded_votes_def)

lemma demo_reloaded_vote:
  "poll_answer_handler demo_reloaded ''p2'' [1] = (demo_reloaded, [Save demo_reloaded, Log INFO])"
  by (simp add: poll_answer_handler_def demo_reloaded_def demo_poll_def reloaded_votes_def)

lemma demo_reloaded_close:
  "close_poll demo_reloaded 7 ''p2'' False demo_close
   = (demo_reloaded, [StopPoll 7 11, Log ERROR], False)"
  by (simp add: close_poll_def get_chat_def str_int_7 demo_reloaded_def demo_poll_def
        reloaded_votes_def py_max_key_def demo_close_def Let_def)

text \<open>
  Claim C6. Saving the sample store (chat 7 with one archived poll and an open poll)
  and loading it back does not give the same store: \<open>json.dump\<close> writes the \<open>int\<close> keys
  of every votes dict as strings and \<open>json.load\<close> returns them as strings. On the store
  read back, a vote for option 1 of the open poll changes no count, because
  \<open>option_id in active_poll["votes"]\<close> is false for an \<open>int\<close>, and \<open>close_poll\<close>
  stops in its \<open>except\<close> clause, because \<open>options[winner_index]\<close> gets a string: the
  poll stays open.
\<close>

theorem save_load_changes_vote_keys:
  "load (Some (save demo_data)) = Some demo_reloaded
   \<and> demo_reloaded \<noteq> demo_data
   \<and> map fst (votes demo_poll) = [KInt 0, KInt 1, KInt 2, KInt 3]
   \<and> active_of demo_reloaded ''7'' = Some (demo_poll\<lparr>votes := reloaded_votes 3 3 1 0\<rparr>)
   \<and> fst (poll_answer_handler demo_reloaded ''p2'' [1]) = demo_reloaded
   \<and> close_poll demo_reloaded 7 ''p2'' False demo_close
       = (demo_reloaded, [StopPoll 7 11, Log ERROR], False)"
proof -
  have a: "active_of demo_reloaded ''7'' = Some (demo_poll\<lparr>votes := reloaded_votes 3 3 1 0\<rparr>)"
    by (simp add: active_of_def demo_reloaded_def)
  have v: "fst (poll_answer_handler demo_reloaded ''p2'' [1]) = demo_reloaded"
    by (simp add: demo_reloaded_vote)
  show ?thesis
    by (rule conjI[OF demo_roundtrip conjI[OF demo_reloaded_differs
          conjI[OF demo_poll_shape(2) conjI[OF a conjI[OF v demo_reloaded_close]]]]])
qed


text \<open>
  Claim C8. The sample store is saved and loaded, as at a restart. Its open poll
  \<open>p2\<close> then has the votes keys \<open>"0"\<close> to \<open>"3"\<close>. A vote event for \<open>p2\<close> naming
  option 1 matches the active poll, yet no count is incremented: the votes are the same
  before and after. On the store before the restart the same event takes option 1
  from 3 to 4. The keys are strings by the defect of claim C6.
\<close>

theorem vote_after_reload_not_counted:
  "load (Some (save demo_data)) = Some demo_reloaded
   \<and> map_option poll_id (active_of demo_reloaded ''7'') = Some ''p2''
   \<and> map_option votes (active_of demo_reloaded ''7'') = Some (reloaded_votes 3 3 1 0)
   \<and> map_option votes (active_of (fst (poll_answer_handler demo_reloaded ''p2'' [1])) ''7'')
       = Some (reloaded_votes 3 3 1 0)
   \<and> map_option votes (active_of (fst (poll_answer_handler demo_data ''p2'' [1])) ''7'')
       = Some [(KInt 0, 3), (KInt 1, 4), (KInt 2, 1), (KInt 3, 0)]"
proof -
  have a: "map_option poll_id (active_of demo_reloaded ''7'') = Some ''p2''"
    by (simp add: active_of_def demo_reloaded_def demo_poll_def)
  have b: "map_option votes (active_of demo_reloaded ''7'') = Some (reloaded_votes 3 3 1 0)"
    by (simp add: active_of_def demo_reloaded_def)
  have c: "map_option votes (active_of (fst (poll_answer_handler demo_reloaded ''p2'' [1])) ''7'')
       = Some (reloaded_votes 3 3 1 0)"
    by (simp add: demo_reloaded_vote b)
  have e: "map_option votes (active_of (fst (poll_answer_handler demo_data ''p2'' [1])) ''7'')
       = Some [(KInt 0, 3), (KInt 1, 4), (KInt 2, 1), (KInt 3, 0)]"
    by (simp add: poll_answer_handler_def demo_data_def demo_poll_def active_of_def)
  show ?thesis by (rule conjI[OF demo_roundtrip conjI[OF a conjI[OF b conjI[OF c e]]]])
qed

section \<open>Two polls in flight\<close>

lemma demo_idle_chat:
  "get_chat demo_idle (str_int 7) = (demo_idle, [], \<lparr>polls = [demo_result], active_poll = None\<rparr>)"
  by (simp add: get_chat_def str_int_7 demo_idle_def)

lemma demo_idle_history:
  "get_code_history demo_idle (str_int 7) = (demo_idle, [], [''x = 1''])"
  by (simp add: get_code_history_def demo_idle_chat demo_result_def)

lemma demo_request:
  "send_poll_request demo_idle 7 None
   = (demo_idle, [Log ERROR, Log INFO, SendPoll 7 2 fallback_next], Some fallback_next)"
  by (simp add: send_poll_request_def demo_idle_history generate_code_options_def call_llm_def)

lemma zero_votes:
  "map (\<lambda>i. (KInt (int i), 0::int)) [0..<4] = [(KInt 0, 0), (KInt 1, 0), (KInt 2, 0), (KInt 3, 0)]"
  by (simp add: upt_conv_Cons)

lemma demo_record_first:
  "send_poll_record demo_cfg demo_idle 7 fallback_next demo_first
   = (demo_after_first, [Save demo_after_first, Log INFO, RunOnce 300 7 ''pA''])"
  by (simp add: send_poll_record_def demo_first_def set_active_poll_def get_chat_def zero_votes
        Let_def str_int_7 demo_idle_def demo_after_first_def demo_cfg_def)

lemma demo_record_second:
  "send_poll_record demo_cfg demo_after_first 7 fallback_next demo_second
   = (demo_after_second, [Save demo_after_second, Log INFO, RunOnce 300 7 ''pB''])"
  by (simp add: send_poll_record_def demo_second_def set_active_poll_def get_chat_def zero_votes
        Let_def str_int_7 demo_after_first_def demo_after_second_def demo_cfg_def)

text \<open>
  Claim C2. Chat 7 is idle. The second half of \<open>close_poll\<close> (a job of the timer)
  finds no active poll and calls \<open>send_poll\<close>, which asks the gateway for a poll and
  waits. While it waits, an admin sends \<open>/sendnow\<close>: the command finds no active poll
  either and calls \<open>send_poll\<close> too. The gateway answers the first call with poll
  \<open>pA\<close>, which becomes the active poll, then the second with \<open>pB\<close>, and
  \<open>set_active_poll\<close> puts \<open>pB\<close> in the place of \<open>pA\<close> while \<open>pA\<close> is open: a poll
  is opened when the active poll of the chat is not null. Each line below is one stretch
  of code between two \<open>await\<close>s, run on the store the one before left.
\<close>

theorem second_poll_replaces_open_poll:
  "close_poll_recheck demo_idle 7 = (demo_idle, [], True)
   \<and> send_poll_request demo_idle 7 None
       = (demo_idle, [Log ERROR, Log INFO, SendPoll 7 2 fallback_next], Some fallback_next)
   \<and> sendnow_command demo_cfg demo_idle 1 7 = (demo_idle, [ReplyText SendingPoll], True)
   \<and> send_poll_request demo_idle 7 None
       = (demo_idle, [Log ERROR, Log INFO, SendPoll 7 2 fallback_next], Some fallback_next)
   \<and> send_poll_record demo_cfg demo_idle 7 fallback_next demo_first
       = (demo_after_first, [Save demo_after_first, Log INFO, RunOnce 300 7 ''pA''])
   \<and> send_poll_record demo_cfg demo_after_first 7 fallback_next demo_second
       = (demo_after_second, [Save demo_after_second, Log INFO, RunOnce 300 7 ''pB''])
   \<and> map_option poll_id (active_of demo_idle ''7'') = None
   \<and> map_option poll_id (active_of demo_after_first ''7'') = Some ''pA''
   \<and> map_option poll_id (active_of demo_after_second ''7'') = Some ''pB''
   \<and> all_open_from_null [demo_idle, demo_after_first]
   \<and> opens_from_null demo_after_first demo_after_second = False
   \<and> all_open_from_null [demo_idle, demo_after_first, demo_after_second] = False"
proof -
  have r: "close_poll_recheck demo_idle 7 = (demo_idle, [], True)"
    by (simp add: close_poll_recheck_def demo_idle_chat)
  have s: "sendnow_command demo_cfg demo_idle 1 7 = (demo_idle, [ReplyText SendingPoll], True)"
    by (simp add: sendnow_command_def demo_idle_chat is_admin_def demo_cfg_def)
  have a0: "map_option poll_id (active_of demo_idle ''7'') = None"
    by (simp add: active_of_def demo_idle_def)
  have a1: "map_option poll_id (active_of demo_after_first ''7'') = Some ''pA''"
    by (simp add: active_of_def demo_after_first_def)
  have a2: "map_option poll_id (active_of demo_after_second ''7'') = Some ''pB''"
    by (simp add: active_of_def demo_after_second_def)
  have o1: "all_open_from_null [demo_idle, demo_after_first]"
    by (simp add: opens_from_null_def active_of_def demo_idle_def demo_after_first_def)
  have o2: "opens_from_null demo_after_first demo_after_second = False"
    by (simp add: opens_from_null_def active_of_def demo_after_first_def demo_after_second_def)
  have o3: "all_open_from_null [demo_idle, demo_after_first, demo_after_second] = False"
    by (simp add: o2)
  show ?thesis
    by (rule conjI[OF r conjI[OF demo_request conjI[OF s conjI[OF demo_request
          conjI[OF demo_record_first conjI[OF demo_record_second conjI[OF a0 conjI[OF a1
          conjI[OF a2 conjI[OF o1 conjI[OF o2 o3]]]]]]]]]]])
qed

end
